theory Spec2Isabelle
  imports Main
begin

section \<open>JavaScript values used by the search gateway\<close>

text \<open>
  Strings are lists of code units, so \<open>length\<close> is JavaScript's \<open>.length\<close> and
  \<open>s.slice(0, n)\<close> with a non-negative constant \<open>n\<close> is \<open>take n s\<close>.
  Every \<open>throw\<close> of the sources throws an \<open>Error\<close> object, and so do \<open>fetch\<close> and
  \<open>JSON.parse\<close>; a thrown value is therefore an \<open>Error\<close> with its message, and an
  asynchronous function is a value of \<open>js_error + 'a\<close>, \<open>Inl\<close> being the rejection.
\<close>

datatype js_error = Error (error_message: string)

datatype json =
    JNull
  | JBool bool
  | JNum int
  | JStr string
  | JArr "json list"
  | JObj "(string \<times> json) list"

text \<open>\<open>try { body } catch (error) { handler }\<close>\<close>

definition try_catch :: "js_error + 'a \<Rightarrow> (js_error \<Rightarrow> js_error + 'a) \<Rightarrow> js_error + 'a" where
  "try_catch body handler = (case body of Inl e \<Rightarrow> handler e | Inr v \<Rightarrow> Inr v)"

text \<open>Truthiness of an optional string: \<open>undefined\<close>, \<open>null\<close> and \<open>''\<close> are falsy.\<close>

definition truthy :: "string option \<Rightarrow> bool" where
  "truthy s = (case s of None \<Rightarrow> False | Some v \<Rightarrow> v \<noteq> [])"

text \<open>\<open>a || b\<close> on optional strings.\<close>

definition or_else :: "string option \<Rightarrow> string option \<Rightarrow> string option" where
  "or_else a b = (if truthy a then a else b)"

text \<open>
  \<open>xs.slice(0, end)\<close> for a number \<open>end\<close>: a negative \<open>end\<close> counts from the end of
  the array.
\<close>

definition js_slice0 :: "int \<Rightarrow> 'a list \<Rightarrow> 'a list" where
  "js_slice0 e xs =
     (if e < 0 then take (nat (int (length xs) + e)) xs else take (nat e) xs)"

subsection \<open>JSON.stringify\<close>

definition hex_digit :: "nat \<Rightarrow> char" where
  "hex_digit n = ''0123456789abcdef'' ! (n mod 16)"

text \<open>\<open>QuoteJSONString\<close>, one code unit at a time.\<close>

definition json_escape_char :: "char \<Rightarrow> string" where
  "json_escape_char c =
     (if c = CHR 0x08 then [CHR 0x5C, CHR ''b'']
      else if c = CHR 0x09 then [CHR 0x5C, CHR ''t'']
      else if c = CHR 0x0A then [CHR 0x5C, CHR ''n'']
      else if c = CHR 0x0C then [CHR 0x5C, CHR ''f'']
      else if c = CHR 0x0D then [CHR 0x5C, CHR ''r'']
      else if c = CHR 0x22 then [CHR 0x5C, CHR 0x22]
      else if c = CHR 0x5C then [CHR 0x5C, CHR 0x5C]
      else if (of_char c :: nat) < 32
        then [CHR 0x5C] @ ''u00'' @ [hex_digit (of_char c div 16), hex_digit (of_char c)]
      else [c])"

definition json_quote :: "string \<Rightarrow> string" where
  "json_quote s = [CHR 0x22] @ concat (map json_escape_char s) @ [CHR 0x22]"

text \<open>\<open>Number::toString\<close> for an integer: its decimal digits, with a sign when negative.\<close>

fun decimal_digits :: "nat \<Rightarrow> string" where
  "decimal_digits n =
     (if n div 10 = 0 then [] else decimal_digits (n div 10)) @ [hex_digit (n mod 10)]"

declare decimal_digits.simps [simp del]

definition number_to_string :: "int \<Rightarrow> string" where
  "number_to_string i =
     (if 0 \<le> i then decimal_digits (nat i) else CHR ''-'' # decimal_digits (nat (- i)))"

fun join :: "string \<Rightarrow> string list \<Rightarrow> string" where
  "join sep [] = []"
| "join sep [x] = x"
| "join sep (x # y # ys) = x @ sep @ join sep (y # ys)"

text \<open>
  \<open>SerializeJSONProperty\<close> with the gap of the third argument of \<open>JSON.stringify\<close>
  and the current indentation. An empty gap gives the compact form.
\<close>

fun serialize :: "string \<Rightarrow> string \<Rightarrow> json \<Rightarrow> string" where
  "serialize gap ind JNull = ''null''"
| "serialize gap ind (JBool b) = (if b then ''true'' else ''false'')"
| "serialize gap ind (JNum n) = number_to_string n"
| "serialize gap ind (JStr s) = json_quote s"
| "serialize gap ind (JArr xs) =
     (let ind' = ind @ gap;
          partial = map (serialize gap ind') xs
      in if partial = [] then ''[]''
         else if gap = [] then ''['' @ join '','' partial @ '']''
         else ''['' @ [CHR 0x0A] @ ind' @ join ('','' @ [CHR 0x0A] @ ind') partial
                @ [CHR 0x0A] @ ind @ '']'')"
| "serialize gap ind (JObj kvs) =
     (let ind' = ind @ gap;
          partial = map (\<lambda>kv. json_quote (fst kv) @ '':'' @ (if gap = [] then [] else '' '')
                                @ serialize gap ind' (snd kv)) kvs
      in if partial = [] then ''{}''
         else if gap = [] then ''{'' @ join '','' partial @ ''}''
         else ''{'' @ [CHR 0x0A] @ ind' @ join ('','' @ [CHR 0x0A] @ ind') partial
                @ [CHR 0x0A] @ ind @ ''}'')"

text \<open>\<open>JSON.stringify(v)\<close> and \<open>JSON.stringify(v, null, 2)\<close>\<close>

definition stringify :: "json \<Rightarrow> string" where
  "stringify v = serialize [] [] v"

definition stringify2 :: "json \<Rightarrow> string" where
  "stringify2 v = serialize ''  '' [] v"

section \<open>The Foundry API client\<close>

text \<open>
  The response types of \<^verbatim>\<open>foundry-client.ts\<close>. An optional field is an \<open>option\<close>;
  \<open>properties\<close> keeps the order of its keys, which \<open>JSON.stringify\<close> follows.
\<close>

record FoundryOntologyObject =
  rid :: string
  properties :: "(string \<times> json) list"

record FoundrySearchResponse =
  data :: "FoundryOntologyObject list option"
  totalCount :: "int option"
  nextPageToken :: "string option"
  searchedTypes :: "string list option"
  message :: "string option"

record FoundryObjectType =
  apiName :: string

record FoundryObjectTypesResponse =
  types_data :: "FoundryObjectType list option"

record FoundryPropertyDefinition =
  baseType :: "string option"
  ptype :: "string option"
  dataType :: "string option option"

record FoundryObjectSchema =
  schema_properties :: "(string \<times> FoundryPropertyDefinition) list option"

text \<open>
  The world outside the client: the environment variable \<open>FOUNDRY_ONTOLOGY_RID\<close> and what
  \<open>callFoundryAPI\<close> answers at an endpoint. \<open>callFoundryAPI\<close> rejects when \<open>fetch\<close>
  rejects or the status is not ok, and its callers cast the parsed body to the type
  they expect, so there is one typed answer for each of the three endpoints:
  \<open>GET .../objectTypes\<close>, \<open>GET .../objectTypes/T\<close> and \<open>POST .../objects/T/search\<close>
  (endpoint and request body).
\<close>

record foundry =
  env_ontology_rid :: "string option"
  api_objectTypes :: "string \<Rightarrow> js_error + FoundryObjectTypesResponse"
  api_objectType :: "string \<Rightarrow> js_error + FoundryObjectSchema"
  api_search :: "string \<Rightarrow> string \<Rightarrow> js_error + FoundrySearchResponse"

text \<open>The literal \<open>{ data: [], totalCount: 0 }\<close>\<close>

definition empty_response :: FoundrySearchResponse where
  "empty_response =
     \<lparr>data = Some [], totalCount = Some 0, nextPageToken = None,
      searchedTypes = None, message = None\<rparr>"

definition getOntologyRid :: "foundry \<Rightarrow> string option" where
  "getOntologyRid env =
     (if truthy (env_ontology_rid env) then env_ontology_rid env else None)"

definition listObjectTypes :: "foundry \<Rightarrow> string option \<Rightarrow> js_error + string list" where
  "listObjectTypes env ontologyRid =
     (let rid = or_else ontologyRid (getOntologyRid env)
      in case rid of
           None \<Rightarrow> Inr []
         | Some r \<Rightarrow>
             if r = [] then Inr []
             else
               let endpoint = ''/api/v1/ontologies/'' @ r @ ''/objectTypes''
               in try_catch
                    (case api_objectTypes env endpoint of
                       Inl e \<Rightarrow> Inl e
                     | Inr response \<Rightarrow>
                         Inr (case types_data response of
                                None \<Rightarrow> []
                              | Some ts \<Rightarrow> map apiName ts))
                    (\<lambda>error. Inl error))"

definition getObjectTypeSchema ::
  "foundry \<Rightarrow> string \<Rightarrow> string option \<Rightarrow> js_error + FoundryObjectSchema" where
  "getObjectTypeSchema env objectType ontologyRid =
     (let rid = or_else ontologyRid (getOntologyRid env)
      in case rid of
           None \<Rightarrow> Inl (Error ''FOUNDRY_ONTOLOGY_RID not configured'')
         | Some r \<Rightarrow>
             if r = [] then Inl (Error ''FOUNDRY_ONTOLOGY_RID not configured'')
             else
               let endpoint = ''/api/v1/ontologies/'' @ r @ ''/objectTypes/'' @ objectType
               in try_catch (api_objectType env endpoint) (\<lambda>error. Inl error))"

definition extractSearchableFields :: "FoundryObjectSchema \<Rightarrow> string list" where
  "extractSearchableFields schema =
     (case schema_properties schema of
        None \<Rightarrow> []
      | Some props \<Rightarrow>
          map (\<lambda>(fieldName, def). ''properties.'' @ fieldName)
            (filter (\<lambda>(fieldName, def).
                       baseType def = Some ''String'' \<or> ptype def = Some ''string''
                       \<or> dataType def = Some (Some ''string''))
               props))"

record query_options =
  q_ontologyRid :: "string option"
  q_maxResults :: "int option"
  q_fields :: "string list option"

definition queryOntologyByType ::
  "foundry \<Rightarrow> string \<Rightarrow> string \<Rightarrow> query_options \<Rightarrow> js_error + FoundrySearchResponse" where
  "queryOntologyByType env objectType searchQuery options =
     (let ontologyRid = or_else (q_ontologyRid options) (getOntologyRid env)
      in case ontologyRid of
           None \<Rightarrow> Inr empty_response
         | Some r \<Rightarrow>
             if r = [] then Inr empty_response
             else
               let maxResults = (case q_maxResults options of None \<Rightarrow> 10 | Some m \<Rightarrow> m);
                   fields = q_fields options;
                   endpoint = ''/api/v1/ontologies/'' @ r @ ''/objects/'' @ objectType @ ''/search''
               in try_catch
                    (let discovered =
                           (case getObjectTypeSchema env objectType (Some r) of
                              Inl e \<Rightarrow> Inl empty_response
                            | Inr schema \<Rightarrow>
                                (let fs = extractSearchableFields schema
                                 in if fs = [] then Inl empty_response else Inr fs));
                         searchFields =
                           (case fields of
                              None \<Rightarrow> discovered
                            | Some fs \<Rightarrow> if fs = [] then discovered else Inr fs)
                     in case searchFields of
                          Inl early \<Rightarrow> Inr early
                        | Inr fs \<Rightarrow>
                            let query =
                                  (case fs of
                                     [f] \<Rightarrow>
                                       JObj [(''type'', JStr ''anyTerm''), (''field'', JStr f),
                                             (''value'', JStr searchQuery)]
                                   | _ \<Rightarrow>
                                       JObj [(''type'', JStr ''or''),
                                             (''value'', JArr (map (\<lambda>field.
                                                JObj [(''type'', JStr ''anyTerm''),
                                                      (''field'', JStr field),
                                                      (''value'', JStr searchQuery)]) fs))]);
                                requestBody = JObj [(''query'', query), (''pageSize'', JNum maxResults)]
                            in api_search env endpoint (stringify requestBody))
                    (\<lambda>error. Inl error))"

record search_options =
  ontologyRid :: "string option"
  objectType :: "string option"
  maxResults :: "int option"
  autoDiscover :: "bool option"

text \<open>The value of an optional string that was tested truthy (empty when there is none).\<close>

definition str_of :: "string option \<Rightarrow> string" where
  "str_of s = (case s of None \<Rightarrow> [] | Some v \<Rightarrow> v)"

definition searchOntologyObjects ::
  "foundry \<Rightarrow> string \<Rightarrow> search_options \<Rightarrow> js_error + FoundrySearchResponse" where
  "searchOntologyObjects env searchQuery options =
     (let rid = or_else (ontologyRid options) (getOntologyRid env)
      in if \<not> truthy rid
         then Inr \<lparr>data = Some [], totalCount = Some 0, nextPageToken = None,
                   searchedTypes = None, message = Some ''Ontology search not configured''\<rparr>
         else
           let max_results = (case maxResults options of None \<Rightarrow> 10 | Some m \<Rightarrow> m);
               auto_discover = (case autoDiscover options of None \<Rightarrow> False | Some b \<Rightarrow> b)
           in try_catch
                (if truthy (objectType options)
                 then
                   let endpoint = ''/api/v1/ontologies/'' @ str_of rid @ ''/objects/''
                                    @ str_of (objectType options) @ ''/search'';
                       requestBody =
                         JObj [(''query'', JObj [(''type'', JStr ''anyTerm''),
                                                  (''value'', JStr searchQuery)]),
                               (''pageSize'', JNum max_results)]
                   in api_search env endpoint (stringify requestBody)
                 else if auto_discover
                 then
                   (case listObjectTypes env rid of
                      Inl e \<Rightarrow> Inl e
                    | Inr objectTypes \<Rightarrow>
                        if length objectTypes = 0 then Inr empty_response
                        else
                          let typesToSearch = take 5 objectTypes;
                              results =
                                map (\<lambda>type.
                                       case queryOntologyByType env type searchQuery
                                              \<lparr>q_ontologyRid = rid, q_maxResults = Some 3,
                                               q_fields = None\<rparr> of
                                         Inl err \<Rightarrow> empty_response
                                       | Inr r \<Rightarrow> r)
                                  typesToSearch;
                              allData = concat (map (\<lambda>r. case data r of None \<Rightarrow> [] | Some d \<Rightarrow> d) results);
                              total = foldl (\<lambda>sum r. sum + (case totalCount r of None \<Rightarrow> 0 | Some n \<Rightarrow> n))
                                        0 results
                          in Inr \<lparr>data = Some (js_slice0 max_results allData),
                                   totalCount = Some total,
                                   nextPageToken = None,
                                   searchedTypes = Some typesToSearch,
                                   message = None\<rparr>)
                 else Inl (Error (''Please specify an objectType or set autoDiscover:true. ''
                                  @ ''Use listObjectTypes() to see available types.'')))
                (\<lambda>error. Inl error))"

section \<open>The search tools\<close>

text \<open>
  What \<^verbatim>\<open>foundry-tools.ts\<close> reads from outside: four environment variables and the
  answer of \<open>fetch\<close> followed by \<open>response.json()\<close> at a URL with a request body. The
  answer is \<open>Inl\<close> when \<open>fetch\<close> rejects, when the status is not ok
  (\<open>HTTP status: text\<close>) and when the body is not JSON.
\<close>

record web_env =
  FOUNDRY_BASE_URL :: "string option"
  FOUNDRY_TOKEN :: "string option"
  FOUNDRY_ONTOLOGY_API_NAME :: "string option"
  FOUNDRY_WEB_SEARCH_FUNCTION_NAME :: "string option"
  fetch_json :: "string \<Rightarrow> string \<Rightarrow> js_error + json"

definition callFoundryFunction :: "web_env \<Rightarrow> string \<Rightarrow> json \<Rightarrow> js_error + json" where
  "callFoundryFunction env functionName parameters =
     (let url = str_of (or_else (FOUNDRY_BASE_URL env)
                          (Some ''https://northslope.palantirfoundry.com''));
          token = FOUNDRY_TOKEN env;
          ontologyApiName = FOUNDRY_ONTOLOGY_API_NAME env
      in if \<not> truthy token
         then Inl (Error ''FOUNDRY_TOKEN environment variable is required'')
         else if \<not> truthy ontologyApiName
         then Inl (Error ''FOUNDRY_ONTOLOGY_API_NAME environment variable is required'')
         else
           let functionUrl = url @ ''/api/v2/ontologies/'' @ str_of ontologyApiName
                               @ ''/queries/'' @ functionName @ ''/execute''
           in fetch_json env functionUrl (stringify (JObj [(''parameters'', parameters)])))"

text \<open>
  The value of \<open>JSON.parse(resultString)\<close> as \<open>webSearch\<close> reads it: through the type
  the source declares for \<open>parsedResult\<close>, together with the parsed value itself, which
  the last \<open>return\<close> serialises again.
\<close>

record web_search_entry =
  entry_query :: string
  entry_success :: bool
  entry_results :: "json list"
  entry_error :: "string option"

record parsed_result =
  parsed_value :: json
  pr_success :: "bool option"
  pr_totalQueries :: "int option"
  pr_searchResults :: "web_search_entry list option"
  pr_error :: "string option"
  pr_details :: "string option"

text \<open>
  \<open>JSON.parse\<close> is a parameter \<open>parse\<close> of \<open>webSearch\<close>. Its argument is the value the
  source passes, a string by the declared type; \<open>Inl\<close> is the \<open>SyntaxError\<close>.
\<close>

definition webSearch ::
  "(json \<Rightarrow> js_error + parsed_result) \<Rightarrow> web_env \<Rightarrow> string \<Rightarrow> js_error + string" where
  "webSearch parse env query =
     (let functionName = str_of (or_else (FOUNDRY_WEB_SEARCH_FUNCTION_NAME env)
                                   (Some ''searchWebBatch''))
      in try_catch
           (case callFoundryFunction env functionName (JObj [(''queries'', JArr [JStr query])]) of
              Inl e \<Rightarrow> Inl e
            | Inr result \<Rightarrow>
                let resultString =
                      (case result of
                         JObj kvs \<Rightarrow>
                           (case map_of kvs ''value'' of
                              Some v \<Rightarrow> v
                            | None \<Rightarrow> JStr (stringify result))
                       | JStr s \<Rightarrow> JStr s
                       | _ \<Rightarrow> JStr (stringify result))
                in case parse resultString of
                     Inl e \<Rightarrow> Inl e
                   | Inr parsedResult \<Rightarrow>
                       let unexpected =
                             (if truthy (pr_error parsedResult)
                              then take 15000 (stringify (JObj
                                     ([(''error'', JStr (str_of (pr_error parsedResult)))]
                                      @ (case pr_details parsedResult of
                                           None \<Rightarrow> []
                                         | Some d \<Rightarrow> [(''details'', JStr d)])
                                      @ [(''query'', JStr query)])))
                              else take 15000 (stringify (parsed_value parsedResult)))
                       in case pr_searchResults parsedResult of
                            Some (firstResult # rest) \<Rightarrow>
                              if entry_success firstResult \<and> length (entry_results firstResult) > 0
                              then Inr (take 15000 (stringify (JObj
                                     [(''success'', JBool True),
                                      (''results'', JArr (entry_results firstResult))])))
                              else if truthy (entry_error firstResult)
                              then Inr (take 15000 (stringify (JObj
                                     [(''error'', JStr (str_of (entry_error firstResult))),
                                      (''query'', JStr query)])))
                              else Inr unexpected
                          | _ \<Rightarrow> Inr unexpected)
           (\<lambda>error.
              Inr (take 15000 (stringify (JObj
                     [(''error'', JStr ''Foundry function call failed''),
                      (''message'', JStr (error_message error)),
                      (''query'', JStr query)])))))"

definition ontologySearch :: "foundry \<Rightarrow> string \<Rightarrow> js_error + string" where
  "ontologySearch env query =
     try_catch
       (case searchOntologyObjects env query
               \<lparr>ontologyRid = None, objectType = None, maxResults = Some 10,
                autoDiscover = Some True\<rparr> of
          Inl e \<Rightarrow> Inl e
        | Inr response \<Rightarrow>
            if message response = Some ''Ontology search not configured''
            then Inr (''[INTERNAL DATA - Not Configured]\<newline>''
                      @ ''Ontology search is not configured. Set FOUNDRY_ONTOLOGY_RID ''
                      @ ''environment variable to enable internal data search.'')
            else
              let formattedResults =
                    JObj [(''query'', JStr query),
                          (''totalCount'',
                             JNum (case totalCount response of None \<Rightarrow> 0 | Some n \<Rightarrow> n)),
                          (''searchedTypes'',
                             JArr (map JStr (case searchedTypes response of
                                               None \<Rightarrow> [] | Some ts \<Rightarrow> ts))),
                          (''results'',
                             JArr (map (\<lambda>obj. JObj [(''rid'', JStr (rid obj)),
                                                      (''properties'', JObj (properties obj))])
                                     (case data response of None \<Rightarrow> [] | Some d \<Rightarrow> d))),
                          (''hasMore'', JBool (truthy (nextPageToken response)))];
                  jsonString = stringify2 formattedResults;
                  truncated = take 15000 jsonString
              in Inr (''[INTERNAL DATA - Foundry Ontology]\<newline>'' @ truncated
                      @ (if length jsonString > 15000 then ''\<newline>...(truncated)'' else [])))
       (\<lambda>error.
          Inr (''[INTERNAL DATA - Error]\<newline>''
               @ ''Failed to query Foundry Ontology for: '' @ [CHR 0x22] @ query @ [CHR 0x22]
               @ ''\<newline>Error: '' @ error_message error
               @ ''\<newline>\<newline>This might be due to:''
               @ ''\<newline>- Missing FOUNDRY_ONTOLOGY_RID environment variable''
               @ ''\<newline>- Invalid authentication token''
               @ ''\<newline>- Network connectivity issues''
               @ ''\<newline>- Ontology configuration issues''
               @ ''\<newline>\<newline>Please check your environment configuration.''))"

section \<open>The research functions\<close>

text \<open>The prompt builders of \<^verbatim>\<open>prompts.ts\<close> that the functions call\<close>

definition getPlanningPrompt :: "string \<Rightarrow> string \<Rightarrow> string" where
  "getPlanningPrompt topic clarificationsText =
     ''Here is the topic: <topic>'' @ topic @ ''</topic> and\<newline>''
     @ ''Here is the topic clarifications:\<newline>'' @ clarificationsText"

definition getExtractionPrompt :: "string \<Rightarrow> string \<Rightarrow> string \<Rightarrow> string" where
  "getExtractionPrompt content topic clarificationsText =
     ''Here is the content: <content>'' @ content
     @ ''</content> and here is the topic: <topic>'' @ topic @ ''</topic>,\<newline>''
     @ ''  <clarifications>'' @ clarificationsText @ ''</clarifications>\<newline>  ''"

definition getAnalysisPrompt ::
  "string \<Rightarrow> string \<Rightarrow> string \<Rightarrow> string list \<Rightarrow> int \<Rightarrow> int \<Rightarrow> nat \<Rightarrow> string" where
  "getAnalysisPrompt contentText topic clarificationsText currentQueries currentIteration
       maxIterations findingsLength =
     ''Analyze the following content and determine if it''
     @ [CHR 0x27] @ ''s sufficient for a comprehensive report:\<newline>\<newline>''
     @ ''Topic: <topic>'' @ topic @ ''</topic>\<newline>\<newline>''
     @ ''Topic Clarifications:\<newline><clarifications>'' @ clarificationsText
     @ ''</clarifications>\<newline>\<newline>''
     @ ''Content:\<newline><content>'' @ contentText @ ''</content>\<newline>\<newline>''
     @ ''Previous queries:\<newline><previousQueries>'' @ join '', '' currentQueries
     @ ''</previousQueries>\<newline>\<newline>''
     @ ''Current Research State:\<newline>''
     @ ''- This is iteration '' @ number_to_string currentIteration @ '' of a maximum ''
     @ number_to_string maxIterations @ '' iterations\<newline>''
     @ ''- We have collected '' @ decimal_digits findingsLength
     @ '' distinct findings so far\<newline>''
     @ ''- Previous attempts at information gathering have yielded ''
     @ decimal_digits (length contentText) @ '' characters of content''"

datatype source = web | ontology

record SearchQuery =
  sq_query :: string
  sq_source :: source

record SearchResult =
  sr_title :: string
  sr_url :: string
  sr_content :: string

record ResearchFindings =
  f_summary :: string
  f_source :: string

text \<open>
  \<open>ResearchState\<close> is declared in \<^verbatim>\<open>types.ts\<close>, which is not among the sources: these
  are the fields the functions below and the data model name. The theorems are stated
  for every extension of the record, so a further field changes none of them.
\<close>

record ResearchState =
  topic :: string
  clerificationsText :: string
  findings :: "ResearchFindings list"
  completedSteps :: int
  tokenUsed :: int

datatype activity_status = pending | complete | error

record Activity =
  act_type :: string
  act_status :: activity_status
  act_message :: string

text \<open>
  Modelled from the spec: \<open>ActivityTracker.add\<close>, whose implementation is not among the
  sources. The observability sink is a one-way append of category, status and message
  records, never read back by the core.
\<close>

definition tracker_add ::
  "Activity list \<Rightarrow> string \<Rightarrow> activity_status \<Rightarrow> string \<Rightarrow> Activity list" where
  "tracker_add activityTracker type status msg =
     activityTracker @ [\<lparr>act_type = type, act_status = status, act_message = msg\<rparr>]"

text \<open>
  Modelled from the spec: \<open>handleError\<close> of \<^verbatim>\<open>utils.ts\<close>, which is not among the sources.
  A failed call is captured at its call site, logged as an activity of status \<open>error\<close>
  and answered with the fallback value the call site names, so that the loop always has
  a well-formed value to continue with. The spec does not give the wording of the logged
  message; the model logs the context and the message of the error.
\<close>

definition handleError ::
  "js_error \<Rightarrow> string \<Rightarrow> Activity list \<Rightarrow> string \<Rightarrow> 'a \<Rightarrow> 'a \<times> Activity list" where
  "handleError err context activityTracker activityType fallbackReturn =
     (fallbackReturn,
      tracker_add activityTracker activityType error
        (context @ '' failed: '' @ error_message err))"

text \<open>
  \<open>callModel\<close> (\<^verbatim>\<open>model-caller.ts\<close>) is not among the sources either and is a parameter
  of each function that calls it. It receives the prompt, the system prompt and the
  activity type, and a state \<open>'w\<close> of the world of the model provider, so that two
  equal calls may end differently; it answers with the value of the schema it was given,
  or rejects. The model identifiers of \<^verbatim>\<open>constants.ts\<close> are fixed by the call site
  and left out.
\<close>

datatype system_prompt =
    PLANNING_SYSTEM_PROMPT
  | EXTRACTION_SYSTEM_PROMPT
  | ANALYSIS_SYSTEM_PROMPT
  | REPORT_SYSTEM_PROMPT

record model_call =
  call_prompt :: string
  call_system :: system_prompt
  call_activityType :: string

record planning_result =
  searchQueries :: "SearchQuery list"

definition generateSearchQueries ::
  "(model_call \<Rightarrow> 'w \<Rightarrow> (js_error + planning_result) \<times> 'w)
   \<Rightarrow> 'a ResearchState_scheme \<Rightarrow> Activity list \<Rightarrow> 'w
   \<Rightarrow> js_error + (planning_result \<times> Activity list \<times> 'w)" where
  "generateSearchQueries callModel researchState activityTracker w =
     (let tracker1 = tracker_add activityTracker ''planning'' pending ''Planning the research'';
          (outcome, w') =
             callModel
               \<lparr>call_prompt = getPlanningPrompt (topic researchState)
                                (clerificationsText researchState),
                call_system = PLANNING_SYSTEM_PROMPT,
                call_activityType = ''planning''\<rparr> w
      in case outcome of
           Inr result \<Rightarrow>
             Inr (result,
                  tracker_add tracker1 ''planning'' complete ''Crafted the research plan'', w')
         | Inl err \<Rightarrow>
             (let (fallback, tracker2) =
                    handleError err ''Research planning'' tracker1 ''planning''
                      \<lparr>searchQueries = [\<lparr>sq_query = topic researchState, sq_source = web\<rparr>]\<rparr>
              in Inr (fallback, tracker2, w')))"

definition search ::
  "(json \<Rightarrow> js_error + parsed_result) \<Rightarrow> web_env \<Rightarrow> foundry \<Rightarrow> string \<Rightarrow> source
   \<Rightarrow> 'a ResearchState_scheme \<Rightarrow> Activity list
   \<Rightarrow> js_error + (SearchResult list \<times> 'a ResearchState_scheme \<times> Activity list)" where
  "search parse wenv fenv query src researchState activityTracker =
     (let sourceLabel = (if src = web then ''Web'' else ''Ontology'');
          tracker1 = tracker_add activityTracker ''search'' pending
                       (''Searching '' @ sourceLabel @ '' for '' @ query);
          fetched =
            (if src = web
             then map_sum id (\<lambda>content. (content, ''Web Results'', ''Firecrawl''))
                    (webSearch parse wenv query)
             else map_sum id (\<lambda>content. (content, ''Ontology Results'', ''Foundry''))
                    (ontologySearch fenv query))
      in case fetched of
           Inr (content, title, url) \<Rightarrow>
             Inr ([\<lparr>sr_title = title, sr_url = url, sr_content = content\<rparr>],
                  researchState\<lparr>completedSteps := completedSteps researchState + 1\<rparr>,
                  tracker_add tracker1 ''search'' complete
                    (''Found '' @ sourceLabel @ '' results for '' @ query))
         | Inl err \<Rightarrow>
             (let (fallback, tracker2) =
                    handleError err (''Searching '' @ sourceLabel @ '' for '' @ query)
                      tracker1 ''search'' []
              in Inr (fallback, researchState, tracker2)))"

record extraction_result =
  x_summary :: string

record extracted =
  e_url :: string
  e_summary :: string

definition extractContent ::
  "(model_call \<Rightarrow> 'w \<Rightarrow> (js_error + extraction_result) \<times> 'w)
   \<Rightarrow> string \<Rightarrow> string \<Rightarrow> 'a ResearchState_scheme \<Rightarrow> Activity list \<Rightarrow> 'w
   \<Rightarrow> (js_error + extracted option) \<times> Activity list \<times> 'w" where
  "extractContent callModel content url researchState activityTracker w =
     (let tracker1 = tracker_add activityTracker ''extract'' pending
                       (''Extracting content from '' @ url);
          (outcome, w') =
             callModel
               \<lparr>call_prompt = getExtractionPrompt content (topic researchState)
                                (clerificationsText researchState),
                call_system = EXTRACTION_SYSTEM_PROMPT,
                call_activityType = ''extract''\<rparr> w
      in case outcome of
           Inr result \<Rightarrow>
             (Inr (Some \<lparr>e_url = url, e_summary = x_summary result\<rparr>),
              tracker_add tracker1 ''extract'' complete (''Extracted content from '' @ url), w')
         | Inl err \<Rightarrow>
             (let (fallback, tracker2) =
                    handleError err (''Content extraction from '' @ url) tracker1 ''extract'' None
              in (Inr (case fallback of None \<Rightarrow> None | Some v \<Rightarrow> Some v), tracker2, w')))"

text \<open>The outcome of a promise under \<open>Promise.allSettled\<close>\<close>

datatype 'a settled = fulfilled 'a | rejected js_error

text \<open>
  \<open>searchResults.map(extractContent)\<close> awaited by \<open>Promise.allSettled\<close>: one outcome for
  each search result, in the order of the results. The extractions run interleaved; the
  model runs them one after the other, which fixes an order of the activity log only.
\<close>

fun extractAll ::
  "(model_call \<Rightarrow> 'w \<Rightarrow> (js_error + extraction_result) \<times> 'w)
   \<Rightarrow> SearchResult list \<Rightarrow> 'a ResearchState_scheme \<Rightarrow> Activity list \<Rightarrow> 'w
   \<Rightarrow> extracted option settled list \<times> Activity list \<times> 'w" where
  "extractAll callModel [] researchState activityTracker w = ([], activityTracker, w)"
| "extractAll callModel (result # rest) researchState activityTracker w =
     (let (promise, tracker1, w1) =
            extractContent callModel (sr_content result) (sr_url result)
              researchState activityTracker w;
          (others, tracker2, w2) = extractAll callModel rest researchState tracker1 w1
      in ((case promise of Inl err \<Rightarrow> rejected err | Inr v \<Rightarrow> fulfilled v) # others,
          tracker2, w2))"

text \<open>
  The filter keeps the fulfilled outcomes whose value is neither \<open>null\<close> nor
  \<open>undefined\<close>, and the map that follows reads \<open>summary\<close> and \<open>url\<close> of each.
\<close>

definition processSearchResults ::
  "(model_call \<Rightarrow> 'w \<Rightarrow> (js_error + extraction_result) \<times> 'w)
   \<Rightarrow> SearchResult list \<Rightarrow> 'a ResearchState_scheme \<Rightarrow> Activity list \<Rightarrow> 'w
   \<Rightarrow> ResearchFindings list \<times> Activity list \<times> 'w" where
  "processSearchResults callModel searchResults researchState activityTracker w =
     (let (extractionResults, tracker1, w') =
            extractAll callModel searchResults researchState activityTracker w;
          newFindings =
            concat (map (\<lambda>result. case result of
                                    fulfilled (Some v) \<Rightarrow>
                                      [\<lparr>f_summary = e_summary v, f_source = e_url v\<rparr>]
                                  | _ \<Rightarrow> [])
                      extractionResults)
      in (newFindings, tracker1, w'))"

record analysis_result =
  sufficient :: bool
  gaps :: "string list"
  queries :: "SearchQuery list"

text \<open>
  \<open>MAX_ITERATIONS\<close> (\<^verbatim>\<open>constants.ts\<close>) and \<open>combineFindings\<close> (\<^verbatim>\<open>utils.ts\<close>) are not
  among the sources and are parameters; \<open>combineFindings\<close> rejects with \<open>Inl\<close> if it
  throws.
\<close>

definition analyzeFindings ::
  "int \<Rightarrow> (ResearchFindings list \<Rightarrow> js_error + string)
   \<Rightarrow> (model_call \<Rightarrow> 'w \<Rightarrow> (js_error + analysis_result) \<times> 'w)
   \<Rightarrow> 'a ResearchState_scheme \<Rightarrow> string list \<Rightarrow> int \<Rightarrow> Activity list \<Rightarrow> 'w
   \<Rightarrow> js_error + (analysis_result \<times> Activity list \<times> 'w)" where
  "analyzeFindings MAX_ITERATIONS combineFindings callModel researchState currentQueries
       currentIteration activityTracker w =
     (let tracker1 = tracker_add activityTracker ''analyze'' pending
                       (''Analyzing research findings (iteration ''
                        @ number_to_string currentIteration @ '') of ''
                        @ number_to_string MAX_ITERATIONS);
          fallbackValue =
            \<lparr>sufficient = False, gaps = [''Unable to analyze content''],
             queries = [\<lparr>sq_query = ''Please try a different search query'',
                         sq_source = web\<rparr>]\<rparr>
      in case combineFindings (findings researchState) of
           Inl err \<Rightarrow>
             (let (fallback, tracker2) =
                    handleError err ''Content analysis'' tracker1 ''analyze'' fallbackValue
              in Inr (fallback, tracker2, w))
         | Inr contentText \<Rightarrow>
             (let (outcome, w') =
                    callModel
                      \<lparr>call_prompt = getAnalysisPrompt contentText (topic researchState)
                                       (clerificationsText researchState) currentQueries
                                       currentIteration MAX_ITERATIONS (length contentText),
                       call_system = ANALYSIS_SYSTEM_PROMPT,
                       call_activityType = ''analyze''\<rparr> w
              in case outcome of
                   Inr result \<Rightarrow>
                     (let isContentSufficient = sufficient result
                      in Inr (result,
                              tracker_add tracker1 ''analyze'' complete
                                (''Analyzed collected research findings: ''
                                 @ (if isContentSufficient then ''Content is sufficient''
                                    else ''More research is needed!'')),
                              w'))
                 | Inl err \<Rightarrow>
                     (let (fallback, tracker2) =
                            handleError err ''Content analysis'' tracker1 ''analyze'' fallbackValue
                      in Inr (fallback, tracker2, w'))))"

section \<open>Sample inputs\<close>

text \<open>
  An ontology with six object types. The schema of \<open>Project\<close> cannot be read, so
  \<open>queryOntologyByType\<close> skips it; the search of \<open>Upload\<close> is rejected by the API; every
  other type answers one object and a total count of 4.
\<close>

definition sample_object :: "string \<Rightarrow> FoundryOntologyObject" where
  "sample_object endpoint = \<lparr>rid = ''ri.object.'' @ endpoint, properties = [(''name'', JStr ''Ada'')]\<rparr>"

definition sample_foundry :: foundry where
  "sample_foundry =
     \<lparr>env_ontology_rid = Some ''ri.x'',
      api_objectTypes = (\<lambda>endpoint.
         Inr \<lparr>types_data = Some (map (\<lambda>n. \<lparr>apiName = n\<rparr>)
                 [''Employee'', ''Project'', ''Upload'', ''News'', ''KeyPeople'', ''T6Resource''])\<rparr>),
      api_objectType = (\<lambda>endpoint.
         if endpoint = ''/api/v1/ontologies/ri.x/objectTypes/Project''
         then Inl (Error ''Foundry API error (404): no schema'')
         else Inr \<lparr>schema_properties =
                     Some [(''name'', \<lparr>baseType = Some ''String'', ptype = None, dataType = None\<rparr>),
                           (''age'', \<lparr>baseType = Some ''Integer'', ptype = None, dataType = None\<rparr>)]\<rparr>),
      api_search = (\<lambda>endpoint body.
         if endpoint = ''/api/v1/ontologies/ri.x/objects/Upload/search''
         then Inl (Error ''Foundry API error (500): boom'')
         else Inr \<lparr>data = Some [sample_object endpoint], totalCount = Some 4,
                    nextPageToken = None, searchedTypes = None, message = None\<rparr>)\<rparr>"

text \<open>A configured ontology in which discovery finds no object type.\<close>

definition empty_foundry :: foundry where
  "empty_foundry =
     \<lparr>env_ontology_rid = Some ''ri.x'',
      api_objectTypes = (\<lambda>endpoint. Inr \<lparr>types_data = Some []\<rparr>),
      api_objectType = (\<lambda>endpoint. Inl (Error ''Foundry API error (404): no schema'')),
      api_search = (\<lambda>endpoint body. Inl (Error ''Foundry API error (404): no type''))\<rparr>"

text \<open>A configured ontology whose API rejects every call.\<close>

definition failing_foundry :: foundry where
  "failing_foundry =
     \<lparr>env_ontology_rid = Some ''ri.x'',
      api_objectTypes = (\<lambda>endpoint. Inl (Error ''Foundry API error (503): unavailable'')),
      api_objectType = (\<lambda>endpoint. Inl (Error ''Foundry API error (503): unavailable'')),
      api_search = (\<lambda>endpoint body. Inl (Error ''Foundry API error (503): unavailable''))\<rparr>"

text \<open>
  An ontology with the one type \<open>Employee\<close>, in which no object matches: the answer to a
  search of that type is \<open>{ data: [], totalCount: 0 }\<close>.
\<close>

definition unmatched_foundry :: foundry where
  "unmatched_foundry =
     \<lparr>env_ontology_rid = Some ''ri.x'',
      api_objectTypes = (\<lambda>endpoint. Inr \<lparr>types_data = Some [\<lparr>apiName = ''Employee''\<rparr>]\<rparr>),
      api_objectType = (\<lambda>endpoint. Inr \<lparr>schema_properties = Some []\<rparr>),
      api_search = (\<lambda>endpoint body. Inr empty_response)\<rparr>"

text \<open>A web backend whose HTTP call is rejected, and a \<open>JSON.parse\<close> that is never reached.\<close>

definition failing_web_env :: web_env where
  "failing_web_env =
     \<lparr>FOUNDRY_BASE_URL = None, FOUNDRY_TOKEN = Some ''token'',
      FOUNDRY_ONTOLOGY_API_NAME = Some ''ontology'',
      FOUNDRY_WEB_SEARCH_FUNCTION_NAME = None,
      fetch_json = (\<lambda>url body. Inl (Error ''HTTP 503: unavailable''))\<rparr>"

definition sample_parse :: "json \<Rightarrow> js_error + parsed_result" where
  "sample_parse v = Inl (Error ''Unexpected end of JSON input'')"

definition sample_state :: ResearchState where
  "sample_state =
     \<lparr>topic = ''TypeScript best practices'', clerificationsText = [], findings = [],
      completedSteps = 0, tokenUsed = 0\<rparr>"

definition sample_results :: "SearchResult list" where
  "sample_results =
     [\<lparr>sr_title = ''Web Results'', sr_url = ''Firecrawl'', sr_content = ''one''\<rparr>,
      \<lparr>sr_title = ''Ontology Results'', sr_url = ''Foundry'', sr_content = ''two''\<rparr>]"

text \<open>A model provider that rejects every call, and one that rejects the first call only.\<close>

definition failing_model :: "model_call \<Rightarrow> nat \<Rightarrow> (js_error + 'r) \<times> nat" where
  "failing_model call w = (Inl (Error ''model unavailable''), Suc w)"

definition flaky_model :: "model_call \<Rightarrow> nat \<Rightarrow> (js_error + extraction_result) \<times> nat" where
  "flaky_model call w =
     (if w = 0 then Inl (Error ''model unavailable'') else Inr \<lparr>x_summary = ''a summary''\<rparr>,
      Suc w)"

text \<open>
  A web backend that answers, with the JSON text wrapped in a \<open>value\<close> field, and four
  readings of that text by \<open>JSON.parse\<close>: results for the one query, an error for the one
  query, an error of the whole batch, and a body without any of the declared fields.
\<close>

definition answering_web_env :: web_env where
  "answering_web_env =
     \<lparr>FOUNDRY_BASE_URL = None, FOUNDRY_TOKEN = Some ''token'',
      FOUNDRY_ONTOLOGY_API_NAME = Some ''ontology'',
      FOUNDRY_WEB_SEARCH_FUNCTION_NAME = None,
      fetch_json = (\<lambda>url body. Inr (JObj [(''value'', JStr ''(the JSON text)'')]))\<rparr>"

definition results_parse :: "json \<Rightarrow> js_error + parsed_result" where
  "results_parse v =
     Inr \<lparr>parsed_value = JObj [(''success'', JBool True)],
          pr_success = Some True, pr_totalQueries = Some 1,
          pr_searchResults =
            Some [\<lparr>entry_query = ''Ada'', entry_success = True,
                   entry_results = [JObj [(''title'', JStr ''Ada Lovelace'')]],
                   entry_error = None\<rparr>],
          pr_error = None, pr_details = None\<rparr>"

definition entry_error_parse :: "json \<Rightarrow> js_error + parsed_result" where
  "entry_error_parse v =
     Inr \<lparr>parsed_value = JObj [(''success'', JBool False)],
          pr_success = Some False, pr_totalQueries = Some 1,
          pr_searchResults =
            Some [\<lparr>entry_query = ''Ada'', entry_success = False, entry_results = [],
                   entry_error = Some ''rate limited''\<rparr>],
          pr_error = None, pr_details = None\<rparr>"

definition batch_error_parse :: "json \<Rightarrow> js_error + parsed_result" where
  "batch_error_parse v =
     Inr \<lparr>parsed_value = JObj [(''error'', JStr ''bad request'')],
          pr_success = None, pr_totalQueries = None, pr_searchResults = None,
          pr_error = Some ''bad request'', pr_details = Some ''no queries''\<rparr>"

definition other_parse :: "json \<Rightarrow> js_error + parsed_result" where
  "other_parse v =
     Inr \<lparr>parsed_value = JObj [(''status'', JStr ''ok'')],
          pr_success = None, pr_totalQueries = None, pr_searchResults = None,
          pr_error = None, pr_details = None\<rparr>"

text \<open>An ontology whose RID is not configured.\<close>

definition unconfigured_foundry :: foundry where
  "unconfigured_foundry =
     \<lparr>env_ontology_rid = None,
      api_objectTypes = (\<lambda>endpoint. Inl (Error ''Foundry API error (401): no token'')),
      api_objectType = (\<lambda>endpoint. Inl (Error ''Foundry API error (401): no token'')),
      api_search = (\<lambda>endpoint body. Inl (Error ''Foundry API error (401): no token''))\<rparr>"

text \<open>
  A model provider that rejects the calls of the judge and answers every other call, and
  one that rejects its first two calls and answers from the third on.
\<close>

definition picky_model :: "model_call \<Rightarrow> nat \<Rightarrow> (js_error + analysis_result) \<times> nat" where
  "picky_model call w =
     (if call_activityType call = ''analyze'' then Inl (Error ''model unavailable'')
      else Inr \<lparr>sufficient = True, gaps = [], queries = []\<rparr>,
      Suc w)"

definition late_model :: "model_call \<Rightarrow> nat \<Rightarrow> (js_error + extraction_result) \<times> nat" where
  "late_model call w =
     (if w < 2 then Inl (Error ''model unavailable'') else Inr \<lparr>x_summary = ''a summary''\<rparr>,
      Suc w)"

text \<open>The options with which \<open>ontologySearch\<close> calls \<open>searchOntologyObjects\<close>\<close>

definition gateway_options :: search_options where
  "gateway_options =
     \<lparr>ontologyRid = None, objectType = None, maxResults = Some 10, autoDiscover = Some True\<rparr>"

section \<open>Auxiliary facts\<close>

text \<open>Shorthands for the statements: the per-type query of auto-discovery, the cap on the
  results, the data and the count of a response, the model call of an extraction, and
  the steps of \<open>webSearch\<close> up to the parsed answer.\<close>

abbreviation typeQuery ::
  "foundry \<Rightarrow> string \<Rightarrow> string option \<Rightarrow> string \<Rightarrow> js_error + FoundrySearchResponse" where
  "typeQuery env searchQuery theRid type \<equiv>
     queryOntologyByType env type searchQuery
       \<lparr>q_ontologyRid = theRid, q_maxResults = Some 3, q_fields = None\<rparr>"

abbreviation cap :: "search_options \<Rightarrow> int" where
  "cap options \<equiv> (case maxResults options of None \<Rightarrow> 10 | Some m \<Rightarrow> m)"

abbreviation responseData :: "FoundrySearchResponse \<Rightarrow> FoundryOntologyObject list" where
  "responseData r \<equiv> (case data r of None \<Rightarrow> [] | Some d \<Rightarrow> d)"

abbreviation responseCount :: "FoundrySearchResponse \<Rightarrow> int" where
  "responseCount r \<equiv> (case totalCount r of None \<Rightarrow> 0 | Some n \<Rightarrow> n)"

abbreviation extractionCall :: "'a ResearchState_scheme \<Rightarrow> SearchResult \<Rightarrow> model_call" where
  "extractionCall researchState result \<equiv>
     \<lparr>call_prompt = getExtractionPrompt (sr_content result) (topic researchState)
                      (clerificationsText researchState),
      call_system = EXTRACTION_SYSTEM_PROMPT,
      call_activityType = ''extract''\<rparr>"

abbreviation webCall :: "web_env \<Rightarrow> string \<Rightarrow> js_error + json" where
  "webCall wenv query \<equiv>
     callFoundryFunction wenv
       (str_of (or_else (FOUNDRY_WEB_SEARCH_FUNCTION_NAME wenv) (Some ''searchWebBatch'')))
       (JObj [(''queries'', JArr [JStr query])])"

abbreviation resultString :: "json \<Rightarrow> json" where
  "resultString result \<equiv>
     (case result of
        JObj kvs \<Rightarrow>
          (case map_of kvs ''value'' of Some v \<Rightarrow> v | None \<Rightarrow> JStr (stringify result))
      | JStr s \<Rightarrow> JStr s
      | _ \<Rightarrow> JStr (stringify result))"

abbreviation webParsed ::
  "(json \<Rightarrow> js_error + parsed_result) \<Rightarrow> web_env \<Rightarrow> string \<Rightarrow> js_error + parsed_result" where
  "webParsed parse wenv query \<equiv>
     (case webCall wenv query of
        Inl err \<Rightarrow> Inl err
      | Inr result \<Rightarrow> parse (resultString result))"

abbreviation firstEntry :: "parsed_result \<Rightarrow> web_search_entry option" where
  "firstEntry parsedResult \<equiv>
     (case pr_searchResults parsedResult of
        Some (entry # rest) \<Rightarrow> Some entry
      | _ \<Rightarrow> None)"

text \<open>
  What the model provider answers to the extraction calls of a batch, in the order of the
  search results, each call made in the world the call before it left.
\<close>

fun modelAnswers ::
  "(model_call \<Rightarrow> 'w \<Rightarrow> (js_error + extraction_result) \<times> 'w)
   \<Rightarrow> 'a ResearchState_scheme \<Rightarrow> SearchResult list \<Rightarrow> 'w
   \<Rightarrow> (js_error + extraction_result) list" where
  "modelAnswers callModel researchState [] w = []"
| "modelAnswers callModel researchState (result # rest) w =
     fst (callModel (extractionCall researchState result) w)
     # modelAnswers callModel researchState rest
         (snd (callModel (extractionCall researchState result) w))"

lemma try_catch_rethrow: "try_catch body Inl = body"
  by (cases body) (simp_all add: try_catch_def)

lemma foldl_add_sum_list:
  "foldl (\<lambda>sum r. sum + f r) (a::int) rs = a + sum_list (map f rs)"
  by (induction rs arbitrary: a) simp_all

lemma length_js_slice0: "0 \<le> e \<Longrightarrow> length (js_slice0 e xs) \<le> nat e"
  by (simp add: js_slice0_def)

lemma searchOntologyObjects_autoDiscover:
  assumes rid: "theRid = or_else (ontologyRid options) (getOntologyRid env)" "truthy theRid"
    and no_type: "\<not> truthy (objectType options)"
    and auto: "autoDiscover options = Some True"
    and types: "listObjectTypes env theRid = Inr objectTypes" "objectTypes \<noteq> []"
  shows "searchOntologyObjects env searchQuery options =
           Inr \<lparr>data = Some (js_slice0 (cap options)
                    (concat (map (\<lambda>type. case typeQuery env searchQuery theRid type of
                                             Inl err \<Rightarrow> []
                                           | Inr r \<Rightarrow> responseData r)
                               (take 5 objectTypes)))),
                 totalCount = Some (sum_list
                    (map (\<lambda>type. case typeQuery env searchQuery theRid type of
                                     Inl err \<Rightarrow> 0
                                   | Inr r \<Rightarrow> responseCount r)
                       (take 5 objectTypes))),
                 nextPageToken = None,
                 searchedTypes = Some (take 5 objectTypes),
                 message = None\<rparr>"
proof -
  have data_eq: "(\<lambda>r. responseData r) \<circ>
          (\<lambda>type. case typeQuery env searchQuery theRid type of
                     Inl err \<Rightarrow> empty_response | Inr r \<Rightarrow> r)
        = (\<lambda>type. case typeQuery env searchQuery theRid type of
                     Inl err \<Rightarrow> [] | Inr r \<Rightarrow> responseData r)"
    by (auto simp: fun_eq_iff empty_response_def split: sum.splits)
  have count_eq: "(\<lambda>r. responseCount r) \<circ>
          (\<lambda>type. case typeQuery env searchQuery theRid type of
                     Inl err \<Rightarrow> empty_response | Inr r \<Rightarrow> r)
        = (\<lambda>type. case typeQuery env searchQuery theRid type of
                     Inl err \<Rightarrow> 0 | Inr r \<Rightarrow> responseCount r)"
    by (auto simp: fun_eq_iff empty_response_def split: sum.splits)
  show ?thesis
    using assms
    by (simp add: searchOntologyObjects_def Let_def foldl_add_sum_list data_eq count_eq
          try_catch_rethrow flip: rid(1))
qed

lemma searchOntologyObjects_no_types:
  assumes "truthy (or_else (ontologyRid options) (getOntologyRid env))"
    and "\<not> truthy (objectType options)"
    and "autoDiscover options = Some True"
    and "listObjectTypes env (or_else (ontologyRid options) (getOntologyRid env)) = Inr []"
  shows "searchOntologyObjects env searchQuery options = Inr empty_response"
  using assms by (simp add: searchOntologyObjects_def Let_def try_catch_rethrow)

lemma concat_map_dropped:
  "concat (map (\<lambda>x. case f x of Inl e \<Rightarrow> [] | Inr r \<Rightarrow> g r) xs)
     = concat (map (\<lambda>x. g (projr (f x))) (filter (\<lambda>x. \<not> isl (f x)) xs))"
  by (induction xs) (auto split: sum.splits)

lemma sum_list_map_dropped:
  "sum_list (map (\<lambda>x. case f x of Inl e \<Rightarrow> 0 | Inr r \<Rightarrow> g r) xs)
     = (sum_list (map (\<lambda>x. g (projr (f x))) (filter (\<lambda>x. \<not> isl (f x)) xs)) :: int)"
  by (induction xs) (auto split: sum.splits)

lemma try_catch_total:
  assumes "\<And>e. \<exists>v. h e = Inr v"
  shows "\<exists>v. try_catch body h = Inr v"
  using assms by (cases body) (auto simp: try_catch_def)

lemma try_catch_takes:
  assumes "\<And>e. body = Inl e \<Longrightarrow> \<exists>v. h e = Inr (take n v)"
    and "\<And>c. body = Inr c \<Longrightarrow> \<exists>v. c = take n v"
  shows "\<exists>v. try_catch body h = Inr (take n v)"
  using assms by (cases body) (auto simp: try_catch_def)

lemma webSearch_returns: "\<exists>v. webSearch parse env query = Inr (take 15000 v)"
  unfolding webSearch_def Let_def
  by (rule try_catch_takes)
     (auto split: sum.splits json.splits option.splits list.splits if_splits)

lemma ontologySearch_returns: "\<exists>content. ontologySearch env query = Inr content"
  unfolding ontologySearch_def by (rule try_catch_total) blast

lemma search_returns:
  "search parse wenv fenv query src researchState activityTracker =
     Inr ([\<lparr>sr_title = (if src = web then ''Web Results'' else ''Ontology Results''),
            sr_url = (if src = web then ''Firecrawl'' else ''Foundry''),
            sr_content = projr (if src = web then webSearch parse wenv query
                                else ontologySearch fenv query)\<rparr>],
          researchState\<lparr>completedSteps := completedSteps researchState + 1\<rparr>,
          tracker_add
            (tracker_add activityTracker ''search'' pending
               (''Searching '' @ (if src = web then ''Web'' else ''Ontology'') @ '' for '' @ query))
            ''search'' complete
            (''Found '' @ (if src = web then ''Web'' else ''Ontology'') @ '' results for '' @ query))"
proof -
  obtain v where v: "webSearch parse wenv query = Inr v"
    using webSearch_returns by blast
  obtain c where c: "ontologySearch fenv query = Inr c"
    using ontologySearch_returns by blast
  show ?thesis
  proof (cases "src = web")
    case True
    then show ?thesis unfolding search_def Let_def by (simp add: v)
  next
    case False
    then show ?thesis unfolding search_def Let_def by (simp add: c)
  qed
qed


section \<open>The claims\<close>

text \<open>
  C10. With an ontology RID configured, no object type given and auto-discovery off (the
  default), \<open>searchOntologyObjects\<close> throws the error that asks for an \<open>objectType\<close> or
  \<open>autoDiscover:true\<close>; it returns no result value.
\<close>

theorem searchOntologyObjects_requires_type_or_autoDiscover:
  assumes "truthy (or_else (ontologyRid options) (getOntologyRid env))"
    and "\<not> truthy (objectType options)"
    and "autoDiscover options = None \<or> autoDiscover options = Some False"
  shows "searchOntologyObjects env searchQuery options =
           Inl (Error (''Please specify an objectType or set autoDiscover:true. ''
                       @ ''Use listObjectTypes() to see available types.''))"
  using assms
  by (auto simp add: searchOntologyObjects_def Let_def try_catch_rethrow)

theorem searchOntologyObjects_requires_type_or_autoDiscover_witness:
  "truthy (or_else (ontologyRid (gateway_options\<lparr>autoDiscover := None\<rparr>))
             (getOntologyRid sample_foundry))
   \<and> \<not> truthy (objectType (gateway_options\<lparr>autoDiscover := None\<rparr>))
   \<and> autoDiscover (gateway_options\<lparr>autoDiscover := None\<rparr>) = None
   \<and> searchOntologyObjects sample_foundry ''Ada'' (gateway_options\<lparr>autoDiscover := None\<rparr>) =
         Inl (Error (''Please specify an objectType or set autoDiscover:true. ''
                     @ ''Use listObjectTypes() to see available types.''))"
proof -
  have rid: "truthy (or_else (ontologyRid (gateway_options\<lparr>autoDiscover := None\<rparr>))
                       (getOntologyRid sample_foundry))"
    by (simp add: gateway_options_def sample_foundry_def getOntologyRid_def or_else_def truthy_def)
  have no_type: "\<not> truthy (objectType (gateway_options\<lparr>autoDiscover := None\<rparr>))"
    by (simp add: gateway_options_def truthy_def)
  have off: "autoDiscover (gateway_options\<lparr>autoDiscover := None\<rparr>) = None"
    by simp
  from searchOntologyObjects_requires_type_or_autoDiscover [OF rid no_type disjI1 [OF off]]
  show ?thesis using rid no_type off by blast
qed

text \<open>
  C4. In an auto-discover search whose discovery answers the list \<open>objectTypes\<close>, the
  types searched are the first five of that list (all of them when there are fewer), the
  data of the per-type answers are concatenated in that order, and the data returned are
  cut to \<open>maxResults\<close> (10 when not given): for a cap that is not negative, at most
  that many objects.
\<close>

theorem autoDiscover_searches_first_five:
  assumes "theRid = or_else (ontologyRid options) (getOntologyRid env)" and "truthy theRid"
    and "\<not> truthy (objectType options)"
    and "autoDiscover options = Some True"
    and "listObjectTypes env theRid = Inr objectTypes"
  shows "\<exists>response.
           searchOntologyObjects env searchQuery options = Inr response
           \<and> searchedTypes response
               = (if objectTypes = [] then None else Some (take 5 objectTypes))
           \<and> length (take 5 objectTypes) = min 5 (length objectTypes)
           \<and> data response
               = Some (js_slice0 (cap options)
                   (concat (map (\<lambda>type. case typeQuery env searchQuery theRid type of
                                            Inl err \<Rightarrow> []
                                          | Inr r \<Rightarrow> responseData r)
                              (take 5 objectTypes))))
           \<and> (0 \<le> cap options \<longrightarrow> length (responseData response) \<le> nat (cap options))"
proof (cases "objectTypes = []")
  case True
  with assms have "searchOntologyObjects env searchQuery options = Inr empty_response"
    by (simp add: searchOntologyObjects_no_types)
  with True show ?thesis
    by (simp add: empty_response_def js_slice0_def)
next
  case False
  from searchOntologyObjects_autoDiscover [OF assms False]
  show ?thesis
    using False by (simp add: length_js_slice0)
qed

theorem autoDiscover_searches_first_five_witness:
  "Some ''ri.x'' = or_else (ontologyRid gateway_options) (getOntologyRid sample_foundry)
   \<and> truthy (Some ''ri.x'')
   \<and> \<not> truthy (objectType gateway_options)
   \<and> autoDiscover gateway_options = Some True
   \<and> listObjectTypes sample_foundry (Some ''ri.x'')
       = Inr [''Employee'', ''Project'', ''Upload'', ''News'', ''KeyPeople'', ''T6Resource'']
   \<and> (\<exists>response.
         searchOntologyObjects sample_foundry ''Ada'' gateway_options = Inr response
         \<and> searchedTypes response
             = Some [''Employee'', ''Project'', ''Upload'', ''News'', ''KeyPeople'']
         \<and> length (responseData response) \<le> 10)"
proof -
  have rid: "Some ''ri.x'' = or_else (ontologyRid gateway_options) (getOntologyRid sample_foundry)"
    by (simp add: gateway_options_def sample_foundry_def getOntologyRid_def or_else_def truthy_def)
  have configured: "truthy (Some ''ri.x'')"
    by (simp add: truthy_def)
  have no_type: "\<not> truthy (objectType gateway_options)"
    by (simp add: gateway_options_def truthy_def)
  have auto: "autoDiscover gateway_options = Some True"
    by (simp add: gateway_options_def)
  have types: "listObjectTypes sample_foundry (Some ''ri.x'')
       = Inr [''Employee'', ''Project'', ''Upload'', ''News'', ''KeyPeople'', ''T6Resource'']"
    by (simp add: listObjectTypes_def sample_foundry_def or_else_def truthy_def try_catch_def)
  have ten: "cap gateway_options = 10"
    by (simp add: gateway_options_def)
  from autoDiscover_searches_first_five [OF rid configured no_type auto types, of "''Ada''"]
  show ?thesis
    using rid configured no_type auto types by (auto simp: ten)
qed

text \<open>
  C9. In an auto-discover search, a type whose query is rejected is dropped from the
  union: the data and the total count are those of the types whose query succeeded, the
  rejected types add no object and nothing to the count, and the answer is an ordinary
  response, with no error and no message. The rejected types still stand in
  \<open>searchedTypes\<close>.
\<close>

theorem failed_type_queries_are_dropped:
  assumes "theRid = or_else (ontologyRid options) (getOntologyRid env)" and "truthy theRid"
    and "\<not> truthy (objectType options)"
    and "autoDiscover options = Some True"
    and "listObjectTypes env theRid = Inr objectTypes" and "objectTypes \<noteq> []"
  shows "searchOntologyObjects env searchQuery options =
           Inr \<lparr>data = Some (js_slice0 (cap options)
                    (concat (map (\<lambda>type. responseData (projr (typeQuery env searchQuery theRid type)))
                               (filter (\<lambda>type. \<not> isl (typeQuery env searchQuery theRid type))
                                  (take 5 objectTypes))))),
                 totalCount = Some (sum_list
                    (map (\<lambda>type. responseCount (projr (typeQuery env searchQuery theRid type)))
                       (filter (\<lambda>type. \<not> isl (typeQuery env searchQuery theRid type))
                          (take 5 objectTypes)))),
                 nextPageToken = None,
                 searchedTypes = Some (take 5 objectTypes),
                 message = None\<rparr>"
  unfolding searchOntologyObjects_autoDiscover [OF assms]
  by (simp only: concat_map_dropped sum_list_map_dropped)

theorem failed_type_queries_are_dropped_witness:
  "Some ''ri.x'' = or_else (ontologyRid gateway_options) (getOntologyRid sample_foundry)
   \<and> truthy (Some ''ri.x'')
   \<and> \<not> truthy (objectType gateway_options)
   \<and> autoDiscover gateway_options = Some True
   \<and> listObjectTypes sample_foundry (Some ''ri.x'')
       = Inr [''Employee'', ''Project'', ''Upload'', ''News'', ''KeyPeople'', ''T6Resource'']
   \<and> typeQuery sample_foundry ''Ada'' (Some ''ri.x'') ''Upload''
       = Inl (Error ''Foundry API error (500): boom'')
   \<and> searchOntologyObjects sample_foundry ''Ada'' gateway_options =
         Inr \<lparr>data = Some [sample_object ''/api/v1/ontologies/ri.x/objects/Employee/search'',
                            sample_object ''/api/v1/ontologies/ri.x/objects/News/search'',
                            sample_object ''/api/v1/ontologies/ri.x/objects/KeyPeople/search''],
               totalCount = Some 12,
               nextPageToken = None,
               searchedTypes = Some [''Employee'', ''Project'', ''Upload'', ''News'', ''KeyPeople''],
               message = None\<rparr>"
proof -
  note defs = queryOntologyByType_def getObjectTypeSchema_def extractSearchableFields_def
    sample_foundry_def getOntologyRid_def or_else_def truthy_def try_catch_def Let_def
    empty_response_def
  have rid: "Some ''ri.x'' = or_else (ontologyRid gateway_options) (getOntologyRid sample_foundry)"
    by (simp add: gateway_options_def sample_foundry_def getOntologyRid_def or_else_def truthy_def)
  have configured: "truthy (Some ''ri.x'')"
    by (simp add: truthy_def)
  have no_type: "\<not> truthy (objectType gateway_options)"
    by (simp add: gateway_options_def truthy_def)
  have auto: "autoDiscover gateway_options = Some True"
    by (simp add: gateway_options_def)
  have types: "listObjectTypes sample_foundry (Some ''ri.x'')
       = Inr [''Employee'', ''Project'', ''Upload'', ''News'', ''KeyPeople'', ''T6Resource'']"
    by (simp add: listObjectTypes_def sample_foundry_def or_else_def truthy_def try_catch_def)
  have nonempty:
    "[''Employee'', ''Project'', ''Upload'', ''News'', ''KeyPeople'', ''T6Resource''] \<noteq> []"
    by simp
  have employee: "typeQuery sample_foundry ''Ada'' (Some ''ri.x'') ''Employee''
       = Inr \<lparr>data = Some [sample_object ''/api/v1/ontologies/ri.x/objects/Employee/search''],
               totalCount = Some 4, nextPageToken = None, searchedTypes = None, message = None\<rparr>"
    by (simp add: defs)
  have project: "typeQuery sample_foundry ''Ada'' (Some ''ri.x'') ''Project'' = Inr empty_response"
    by (simp add: defs)
  have upload: "typeQuery sample_foundry ''Ada'' (Some ''ri.x'') ''Upload''
       = Inl (Error ''Foundry API error (500): boom'')"
    by (simp add: defs)
  have news: "typeQuery sample_foundry ''Ada'' (Some ''ri.x'') ''News''
       = Inr \<lparr>data = Some [sample_object ''/api/v1/ontologies/ri.x/objects/News/search''],
               totalCount = Some 4, nextPageToken = None, searchedTypes = None, message = None\<rparr>"
    by (simp add: defs)
  have people: "typeQuery sample_foundry ''Ada'' (Some ''ri.x'') ''KeyPeople''
       = Inr \<lparr>data = Some [sample_object ''/api/v1/ontologies/ri.x/objects/KeyPeople/search''],
               totalCount = Some 4, nextPageToken = None, searchedTypes = None, message = None\<rparr>"
    by (simp add: defs)
  have ten: "cap gateway_options = 10"
    by (simp add: gateway_options_def)
  from failed_type_queries_are_dropped [OF rid configured no_type auto types nonempty, of "''Ada''"]
  have "searchOntologyObjects sample_foundry ''Ada'' gateway_options =
         Inr \<lparr>data = Some [sample_object ''/api/v1/ontologies/ri.x/objects/Employee/search'',
                            sample_object ''/api/v1/ontologies/ri.x/objects/News/search'',
                            sample_object ''/api/v1/ontologies/ri.x/objects/KeyPeople/search''],
               totalCount = Some 12,
               nextPageToken = None,
               searchedTypes = Some [''Employee'', ''Project'', ''Upload'', ''News'', ''KeyPeople''],
               message = None\<rparr>"
    by (simp add: ten employee project upload news people empty_response_def js_slice0_def)
  with rid configured no_type auto types upload show ?thesis
    by blast
qed

lemma ontologySearch_formatted:
  assumes "searchOntologyObjects env query gateway_options = Inr response"
    and "message response \<noteq> Some ''Ontology search not configured''"
  shows "ontologySearch env query =
           (let jsonString = stringify2 (JObj
                  [(''query'', JStr query),
                   (''totalCount'', JNum (responseCount response)),
                   (''searchedTypes'',
                      JArr (map JStr (case searchedTypes response of None \<Rightarrow> [] | Some ts \<Rightarrow> ts))),
                   (''results'',
                      JArr (map (\<lambda>obj. JObj [(''rid'', JStr (rid obj)),
                                               (''properties'', JObj (properties obj))])
                              (responseData response))),
                   (''hasMore'', JBool (truthy (nextPageToken response)))])
            in Inr (''[INTERNAL DATA - Foundry Ontology]\<newline>'' @ take 15000 jsonString
                    @ (if length jsonString > 15000 then ''\<newline>...(truncated)'' else [])))"
proof -
  have call: "searchOntologyObjects env query
      \<lparr>ontologyRid = None, objectType = None, maxResults = Some 10, autoDiscover = Some True\<rparr>
      = Inr response"
    using assms(1) by (simp only: gateway_options_def)
  show ?thesis
    unfolding ontologySearch_def call
    by (simp only: sum.case assms(2) if_False try_catch_def Let_def)
qed




lemma empty_foundry_no_types:
  "searchOntologyObjects empty_foundry query gateway_options = Inr empty_response"
  by (rule searchOntologyObjects_no_types)
     (simp_all add: gateway_options_def empty_foundry_def getOntologyRid_def or_else_def
        truthy_def listObjectTypes_def try_catch_def)



text \<open>
  C3 (amended). When auto-discovery is reached and finds no object type,
  \<open>searchOntologyObjects\<close> returns the plain \<open>{ data: [], totalCount: 0 }\<close>, with no
  message and no list of searched types, and throws nothing. \<open>ontologySearch\<close> formats it
  like any other response: under the ordinary header, a total count of 0, an empty
  \<open>searchedTypes\<close> list, no results and \<open>hasMore\<close> false, cut to 15000 characters.
\<close>

theorem no_object_types_gives_empty_response:
  assumes "truthy (getOntologyRid env)"
    and "listObjectTypes env (getOntologyRid env) = Inr []"
  shows "searchOntologyObjects env query gateway_options = Inr empty_response
         \<and> (let jsonString = stringify2 (JObj
                    [(''query'', JStr query),
                     (''totalCount'', JNum 0),
                     (''searchedTypes'', JArr []),
                     (''results'', JArr []),
                     (''hasMore'', JBool False)])
              in ontologySearch env query =
                   Inr (''[INTERNAL DATA - Foundry Ontology]\<newline>'' @ take 15000 jsonString
                        @ (if length jsonString > 15000 then ''\<newline>...(truncated)'' else [])))"
proof -
  have found: "searchOntologyObjects env query gateway_options = Inr empty_response"
    using assms
    by (intro searchOntologyObjects_no_types) (simp_all add: gateway_options_def or_else_def truthy_def)
  have unmarked: "message empty_response \<noteq> Some ''Ontology search not configured''"
    by (simp add: empty_response_def)
  show ?thesis
    unfolding ontologySearch_formatted [OF found unmarked]
    by (simp add: found empty_response_def truthy_def)
qed

theorem no_object_types_gives_empty_response_witness:
  \<open>truthy (getOntologyRid empty_foundry)
   \<and> listObjectTypes empty_foundry (getOntologyRid empty_foundry) = Inr []
   \<and> searchOntologyObjects empty_foundry ''Ada'' gateway_options = Inr empty_response
   \<and> ontologySearch empty_foundry ''Ada'' =
       Inr (''[INTERNAL DATA - Foundry Ontology]\<newline>''
            @ ''{\<newline>  "query": "Ada",\<newline>  "totalCount": 0,\<newline>  "searchedTypes": [],''
            @ ''\<newline>  "results": [],\<newline>  "hasMore": false\<newline>}'')\<close>
proof -
  have configured: "truthy (getOntologyRid empty_foundry)"
    by (simp add: empty_foundry_def getOntologyRid_def truthy_def)
  have none: "listObjectTypes empty_foundry (getOntologyRid empty_foundry) = Inr []"
    by (simp add: empty_foundry_def getOntologyRid_def truthy_def listObjectTypes_def
          or_else_def try_catch_def)
  from no_object_types_gives_empty_response [OF configured none, of "''Ada''"]
  show ?thesis
    using configured none
    by (simp add: Let_def stringify2_def json_quote_def json_escape_char_def
          number_to_string_def decimal_digits.simps hex_digit_def)
qed

text \<open>
  C3 as stated fails in the marker. In an ontology without object types the response is
  the literal \<open>{ data: [], totalCount: 0 }\<close>, the very response of a search of an
  existing type in which nothing matches, and the content of the gateway result is the
  ordinary listing below: nothing in it says that there are no categories, apart from
  the list of searched types being empty.
\<close>

theorem no_object_types_counterexample:
  \<open>searchOntologyObjects empty_foundry ''Ada'' gateway_options
     = Inr \<lparr>data = Some [], totalCount = Some 0, nextPageToken = None,
             searchedTypes = None, message = None\<rparr>
   \<and> searchOntologyObjects unmatched_foundry ''Ada''
         \<lparr>ontologyRid = None, objectType = Some ''Employee'', maxResults = Some 10,
          autoDiscover = None\<rparr>
     = searchOntologyObjects empty_foundry ''Ada'' gateway_options
   \<and> ontologySearch empty_foundry ''Ada'' =
       Inr (''[INTERNAL DATA - Foundry Ontology]\<newline>''
            @ ''{\<newline>  "query": "Ada",\<newline>  "totalCount": 0,\<newline>  "searchedTypes": [],''
            @ ''\<newline>  "results": [],\<newline>  "hasMore": false\<newline>}'')\<close>
proof -
  have empty: "searchOntologyObjects empty_foundry ''Ada'' gateway_options = Inr empty_response"
    by (rule empty_foundry_no_types)
  have unmatched: "searchOntologyObjects unmatched_foundry ''Ada''
         \<lparr>ontologyRid = None, objectType = Some ''Employee'', maxResults = Some 10,
          autoDiscover = None\<rparr> = Inr empty_response"
    by (simp add: searchOntologyObjects_def unmatched_foundry_def getOntologyRid_def
          or_else_def truthy_def try_catch_def)
  have unmarked: "message empty_response \<noteq> Some ''Ontology search not configured''"
    by (simp add: empty_response_def)
  have content: \<open>ontologySearch empty_foundry ''Ada'' =
       Inr (''[INTERNAL DATA - Foundry Ontology]\<newline>''
            @ ''{\<newline>  "query": "Ada",\<newline>  "totalCount": 0,\<newline>  "searchedTypes": [],''
            @ ''\<newline>  "results": [],\<newline>  "hasMore": false\<newline>}'')\<close>
    unfolding ontologySearch_formatted [OF empty unmarked]
    by (simp add: Let_def stringify2_def json_quote_def json_escape_char_def
          number_to_string_def decimal_digits.simps hex_digit_def empty_response_def truthy_def)
  show ?thesis
    unfolding unmatched content
    using empty by (simp add: empty_response_def)
qed

lemma ontologySearch_failed:
  assumes "searchOntologyObjects fenv query gateway_options = Inl err"
  shows "ontologySearch fenv query =
           Inr (''[INTERNAL DATA - Error]\<newline>''
                @ ''Failed to query Foundry Ontology for: '' @ [CHR 0x22] @ query @ [CHR 0x22]
                @ ''\<newline>Error: '' @ error_message err
                @ ''\<newline>\<newline>This might be due to:''
                @ ''\<newline>- Missing FOUNDRY_ONTOLOGY_RID environment variable''
                @ ''\<newline>- Invalid authentication token''
                @ ''\<newline>- Network connectivity issues''
                @ ''\<newline>- Ontology configuration issues''
                @ ''\<newline>\<newline>Please check your environment configuration.'')"
proof -
  have call: "searchOntologyObjects fenv query
      \<lparr>ontologyRid = None, objectType = None, maxResults = Some 10, autoDiscover = Some True\<rparr>
      = Inl err"
    using assms by (simp only: gateway_options_def)
  show ?thesis
    unfolding ontologySearch_def call
    by (simp only: sum.case try_catch_def)
qed

text \<open>
  C8 (amended). Every call of \<open>search\<close> returns with \<open>completedSteps\<close> incremented by one
  and every other field of the research state as it was, whether the backend invocation
  succeeded or failed: \<open>webSearch\<close> and \<open>ontologySearch\<close> turn a failed invocation into a
  content string, and \<open>search\<close> counts the step.
\<close>

theorem search_counts_every_call:
  "\<exists>results activityTracker'.
     search parse wenv fenv query src researchState activityTracker =
       Inr (results,
            researchState\<lparr>completedSteps := completedSteps researchState + 1\<rparr>,
            activityTracker')"
  unfolding search_returns by blast

text \<open>
  C8 as stated fails in its second half. The HTTP call of the web search function is
  rejected, and the state that \<open>search\<close> returns has one completed step more than the
  state it was given.
\<close>

theorem search_counts_failed_call_counterexample:
  "callFoundryFunction failing_web_env ''searchWebBatch'' (JObj [(''queries'', JArr [JStr ''Ada''])])
     = Inl (Error ''HTTP 503: unavailable'')
   \<and> completedSteps sample_state = 0
   \<and> map_sum id (completedSteps \<circ> fst \<circ> snd)
         (search sample_parse failing_web_env empty_foundry ''Ada'' web sample_state [])
       = Inr 1"
proof -
  have "callFoundryFunction failing_web_env ''searchWebBatch''
          (JObj [(''queries'', JArr [JStr ''Ada''])]) = Inl (Error ''HTTP 503: unavailable'')"
    by (simp add: callFoundryFunction_def failing_web_env_def truthy_def or_else_def str_of_def)
  moreover have "completedSteps sample_state = 0"
    by (simp add: sample_state_def)
  ultimately show ?thesis
    unfolding search_returns by simp
qed

text \<open>
  C5. If the planner's model call is rejected, \<open>generateSearchQueries\<close> does not throw: it
  returns the batch of exactly one query, whose text is the topic of the research state
  and whose source is web.
\<close>

theorem planner_failure_falls_back_to_topic:
  assumes "callModel
             \<lparr>call_prompt = getPlanningPrompt (topic researchState)
                              (clerificationsText researchState),
              call_system = PLANNING_SYSTEM_PROMPT,
              call_activityType = ''planning''\<rparr> w = (Inl err, w')"
  shows "\<exists>activityTracker'.
           generateSearchQueries callModel researchState activityTracker w =
             Inr (\<lparr>searchQueries = [\<lparr>sq_query = topic researchState, sq_source = web\<rparr>]\<rparr>,
                  activityTracker', w')"
  using assms by (simp add: generateSearchQueries_def Let_def handleError_def)

theorem planner_failure_falls_back_to_topic_witness:
  "failing_model
     \<lparr>call_prompt = getPlanningPrompt (topic sample_state) (clerificationsText sample_state),
      call_system = PLANNING_SYSTEM_PROMPT,
      call_activityType = ''planning''\<rparr> 0 = (Inl (Error ''model unavailable''), 1)
   \<and> (\<exists>activityTracker'.
         generateSearchQueries failing_model sample_state [] 0 =
           Inr (\<lparr>searchQueries = [\<lparr>sq_query = ''TypeScript best practices'', sq_source = web\<rparr>]\<rparr>,
                activityTracker', 1))"
proof -
  have rejected: "failing_model
     \<lparr>call_prompt = getPlanningPrompt (topic sample_state) (clerificationsText sample_state),
      call_system = PLANNING_SYSTEM_PROMPT,
      call_activityType = ''planning''\<rparr> 0 = (Inl (Error ''model unavailable''), 1)"
    by (simp add: failing_model_def)
  have named: "topic sample_state = ''TypeScript best practices''"
    by (simp add: sample_state_def)
  have "\<exists>activityTracker'.
         generateSearchQueries failing_model sample_state [] 0 =
           Inr (\<lparr>searchQueries = [\<lparr>sq_query = topic sample_state, sq_source = web\<rparr>]\<rparr>,
                activityTracker', 1)"
    using rejected
    by (rule planner_failure_falls_back_to_topic [where callModel = failing_model
      and researchState = sample_state and w = 0 and w' = 1
      and err = "Error ''model unavailable''" and activityTracker = "[]"])
  then show ?thesis
    using rejected by (simp add: named)
qed

lemma webSearch_parsed:
  "webSearch parse wenv query =
     Inr (case webParsed parse wenv query of
            Inl err \<Rightarrow>
              take 15000 (stringify (JObj
                [(''error'', JStr ''Foundry function call failed''),
                 (''message'', JStr (error_message err)),
                 (''query'', JStr query)]))
          | Inr parsedResult \<Rightarrow>
              (let unexpected =
                     (if truthy (pr_error parsedResult)
                      then take 15000 (stringify (JObj
                             ([(''error'', JStr (str_of (pr_error parsedResult)))]
                              @ (case pr_details parsedResult of
                                   None \<Rightarrow> []
                                 | Some d \<Rightarrow> [(''details'', JStr d)])
                              @ [(''query'', JStr query)])))
                      else take 15000 (stringify (parsed_value parsedResult)))
               in case firstEntry parsedResult of
                    None \<Rightarrow> unexpected
                  | Some entry \<Rightarrow>
                      if entry_success entry \<and> entry_results entry \<noteq> []
                      then take 15000 (stringify (JObj
                             [(''success'', JBool True),
                              (''results'', JArr (entry_results entry))]))
                      else if truthy (entry_error entry)
                      then take 15000 (stringify (JObj
                             [(''error'', JStr (str_of (entry_error entry))),
                              (''query'', JStr query)]))
                      else unexpected))"
proof (cases "webCall wenv query")
  case (Inl err)
  then show ?thesis
    unfolding webSearch_def Let_def by (simp add: try_catch_def)
next
  case call: (Inr result)
  show ?thesis
  proof (cases "parse (resultString result)")
    case (Inl err)
    with call show ?thesis
      unfolding webSearch_def Let_def by (simp add: try_catch_def)
  next
    case (Inr parsedResult)
    with call show ?thesis
      unfolding webSearch_def Let_def
      by (auto simp add: try_catch_def split: option.splits list.splits)
  qed
qed

lemma ontologySearch_not_configured:
  assumes "searchOntologyObjects env query gateway_options = Inr response"
    and "message response = Some ''Ontology search not configured''"
  shows "ontologySearch env query =
      Inr (''[INTERNAL DATA - Not Configured]\<newline>''
           @ ''Ontology search is not configured. Set FOUNDRY_ONTOLOGY_RID ''
           @ ''environment variable to enable internal data search.'')"
proof -
  have call: "searchOntologyObjects env query
      \<lparr>ontologyRid = None, objectType = None, maxResults = Some 10, autoDiscover = Some True\<rparr>
      = Inr response"
    using assms(1) by (simp only: gateway_options_def)
  show ?thesis
    unfolding ontologySearch_def call
    by (simp only: sum.case assms(2) simp_thms if_True try_catch_def)
qed

lemma sample_foundry_response:
  "searchOntologyObjects sample_foundry ''Ada'' gateway_options
     = Inr \<lparr>data = Some [sample_object ''/api/v1/ontologies/ri.x/objects/Employee/search'',
                          sample_object ''/api/v1/ontologies/ri.x/objects/News/search'',
                          sample_object ''/api/v1/ontologies/ri.x/objects/KeyPeople/search''],
             totalCount = Some 12, nextPageToken = None,
             searchedTypes = Some [''Employee'', ''Project'', ''Upload'', ''News'', ''KeyPeople''],
             message = None\<rparr>"
  by (simp add: searchOntologyObjects_def gateway_options_def listObjectTypes_def
        queryOntologyByType_def getObjectTypeSchema_def extractSearchableFields_def
        sample_foundry_def getOntologyRid_def or_else_def truthy_def try_catch_def Let_def
        empty_response_def js_slice0_def)

text \<open>
  C2. For every query and either source, \<open>search\<close> returns (it does not throw) a list
  of exactly one \<open>SearchResult\<close>, and its content is fixed by what the backend answered.
  For the web source: the results of the query when the answer holds results; the error
  of the query, or of the whole answer, when it holds one; the answer itself otherwise; and
  the JSON object with \<open>error\<close>, the \<open>message\<close> of the rejection and the \<open>query\<close> when the
  call or the parsing of its answer is rejected; all cut to 15000 characters. For the
  ontology source: the listing of the response under its header, the placeholder when the
  ontology is not configured, and the \<open>[INTERNAL DATA - Error]\<close> text with the query and
  the message when the search throws.
\<close>

theorem search_returns_one_result:
  "\<exists>webContent ontologyContent webState webTracker ontologyState ontologyTracker.
     search parse wenv fenv query web researchState activityTracker =
       Inr ([\<lparr>sr_title = ''Web Results'', sr_url = ''Firecrawl'', sr_content = webContent\<rparr>],
            webState, webTracker)
     \<and> search parse wenv fenv query ontology researchState activityTracker =
         Inr ([\<lparr>sr_title = ''Ontology Results'', sr_url = ''Foundry'',
                sr_content = ontologyContent\<rparr>],
              ontologyState, ontologyTracker)
     \<and> (\<forall>err. webParsed parse wenv query = Inl err \<longrightarrow>
            webContent = take 15000 (stringify (JObj
                           [(''error'', JStr ''Foundry function call failed''),
                            (''message'', JStr (error_message err)),
                            (''query'', JStr query)])))
     \<and> (\<forall>parsedResult entry.
            webParsed parse wenv query = Inr parsedResult
            \<and> firstEntry parsedResult = Some entry
            \<and> entry_success entry \<and> entry_results entry \<noteq> [] \<longrightarrow>
            webContent = take 15000 (stringify (JObj
                           [(''success'', JBool True),
                            (''results'', JArr (entry_results entry))])))
     \<and> (\<forall>parsedResult entry.
            webParsed parse wenv query = Inr parsedResult
            \<and> firstEntry parsedResult = Some entry
            \<and> \<not> (entry_success entry \<and> entry_results entry \<noteq> [])
            \<and> truthy (entry_error entry) \<longrightarrow>
            webContent = take 15000 (stringify (JObj
                           [(''error'', JStr (str_of (entry_error entry))),
                            (''query'', JStr query)])))
     \<and> (\<forall>parsedResult.
            webParsed parse wenv query = Inr parsedResult
            \<and> (\<forall>entry. firstEntry parsedResult = Some entry \<longrightarrow>
                   \<not> (entry_success entry \<and> entry_results entry \<noteq> [])
                   \<and> \<not> truthy (entry_error entry)) \<longrightarrow>
            webContent =
              (if truthy (pr_error parsedResult)
               then take 15000 (stringify (JObj
                      ([(''error'', JStr (str_of (pr_error parsedResult)))]
                       @ (case pr_details parsedResult of
                            None \<Rightarrow> []
                          | Some d \<Rightarrow> [(''details'', JStr d)])
                       @ [(''query'', JStr query)])))
               else take 15000 (stringify (parsed_value parsedResult))))
     \<and> (\<forall>err. searchOntologyObjects fenv query gateway_options = Inl err \<longrightarrow>
            ontologyContent =
              ''[INTERNAL DATA - Error]\<newline>''
              @ ''Failed to query Foundry Ontology for: '' @ [CHR 0x22] @ query @ [CHR 0x22]
              @ ''\<newline>Error: '' @ error_message err
              @ ''\<newline>\<newline>This might be due to:''
              @ ''\<newline>- Missing FOUNDRY_ONTOLOGY_RID environment variable''
              @ ''\<newline>- Invalid authentication token''
              @ ''\<newline>- Network connectivity issues''
              @ ''\<newline>- Ontology configuration issues''
              @ ''\<newline>\<newline>Please check your environment configuration.'')
     \<and> (\<forall>response. searchOntologyObjects fenv query gateway_options = Inr response \<longrightarrow>
            ontologyContent =
              (if message response = Some ''Ontology search not configured''
               then ''[INTERNAL DATA - Not Configured]\<newline>''
                    @ ''Ontology search is not configured. Set FOUNDRY_ONTOLOGY_RID ''
                    @ ''environment variable to enable internal data search.''
               else
                 (let jsonString = stringify2 (JObj
                        [(''query'', JStr query),
                         (''totalCount'', JNum (responseCount response)),
                         (''searchedTypes'',
                            JArr (map JStr (case searchedTypes response of
                                              None \<Rightarrow> [] | Some ts \<Rightarrow> ts))),
                         (''results'',
                            JArr (map (\<lambda>obj. JObj [(''rid'', JStr (rid obj)),
                                                     (''properties'', JObj (properties obj))])
                                    (responseData response))),
                         (''hasMore'', JBool (truthy (nextPageToken response)))])
                  in ''[INTERNAL DATA - Foundry Ontology]\<newline>'' @ take 15000 jsonString
                     @ (if length jsonString > 15000 then ''\<newline>...(truncated)'' else []))))"
proof -
  obtain webContent where web: "webSearch parse wenv query = Inr webContent"
    using webSearch_returns by blast
  obtain ontologyContent where ont: "ontologySearch fenv query = Inr ontologyContent"
    using ontologySearch_returns by blast
  have "search parse wenv fenv query web researchState activityTracker =
       Inr ([\<lparr>sr_title = ''Web Results'', sr_url = ''Firecrawl'', sr_content = webContent\<rparr>],
            researchState\<lparr>completedSteps := completedSteps researchState + 1\<rparr>,
            tracker_add
              (tracker_add activityTracker ''search'' pending
                 (''Searching '' @ ''Web'' @ '' for '' @ query))
              ''search'' complete (''Found '' @ ''Web'' @ '' results for '' @ query))"
    unfolding search_returns by (simp add: web)
  moreover have "search parse wenv fenv query ontology researchState activityTracker =
       Inr ([\<lparr>sr_title = ''Ontology Results'', sr_url = ''Foundry'',
              sr_content = ontologyContent\<rparr>],
            researchState\<lparr>completedSteps := completedSteps researchState + 1\<rparr>,
            tracker_add
              (tracker_add activityTracker ''search'' pending
                 (''Searching '' @ ''Ontology'' @ '' for '' @ query))
              ''search'' complete (''Found '' @ ''Ontology'' @ '' results for '' @ query))"
    unfolding search_returns by (simp add: ont)
  moreover have "webContent = take 15000 (stringify (JObj
                           [(''error'', JStr ''Foundry function call failed''),
                            (''message'', JStr (error_message err)),
                            (''query'', JStr query)]))"
    if "webParsed parse wenv query = Inl err" for err
    using web unfolding webSearch_parsed that by simp
  moreover have "webContent = take 15000 (stringify (JObj
                           [(''success'', JBool True),
                            (''results'', JArr (entry_results entry))]))"
    if "webParsed parse wenv query = Inr parsedResult
        \<and> firstEntry parsedResult = Some entry
        \<and> entry_success entry \<and> entry_results entry \<noteq> []" for parsedResult entry
  proof -
    from that have p: "webParsed parse wenv query = Inr parsedResult"
      and e: "firstEntry parsedResult = Some entry"
      and s: "entry_success entry \<and> entry_results entry \<noteq> []"
      by blast+
    show ?thesis
      using web unfolding webSearch_parsed p sum.case Let_def e option.case
      by (simp add: s)
  qed
  moreover have "webContent = take 15000 (stringify (JObj
                           [(''error'', JStr (str_of (entry_error entry))),
                            (''query'', JStr query)]))"
    if "webParsed parse wenv query = Inr parsedResult
        \<and> firstEntry parsedResult = Some entry
        \<and> \<not> (entry_success entry \<and> entry_results entry \<noteq> [])
        \<and> truthy (entry_error entry)" for parsedResult entry
  proof -
    from that have p: "webParsed parse wenv query = Inr parsedResult"
      and e: "firstEntry parsedResult = Some entry"
      and s: "\<not> (entry_success entry \<and> entry_results entry \<noteq> [])"
      and t: "truthy (entry_error entry)"
      by blast+
    show ?thesis
      using web unfolding webSearch_parsed p sum.case Let_def e option.case
      by (simp add: s t)
  qed
  moreover have "webContent =
              (if truthy (pr_error parsedResult)
               then take 15000 (stringify (JObj
                      ([(''error'', JStr (str_of (pr_error parsedResult)))]
                       @ (case pr_details parsedResult of
                            None \<Rightarrow> []
                          | Some d \<Rightarrow> [(''details'', JStr d)])
                       @ [(''query'', JStr query)])))
               else take 15000 (stringify (parsed_value parsedResult)))"
    if "webParsed parse wenv query = Inr parsedResult
        \<and> (\<forall>entry. firstEntry parsedResult = Some entry \<longrightarrow>
               \<not> (entry_success entry \<and> entry_results entry \<noteq> [])
               \<and> \<not> truthy (entry_error entry))" for parsedResult
  proof -
    from that have p: "webParsed parse wenv query = Inr parsedResult"
      and n: "\<forall>entry. firstEntry parsedResult = Some entry \<longrightarrow>
               \<not> (entry_success entry \<and> entry_results entry \<noteq> [])
               \<and> \<not> truthy (entry_error entry)"
      by blast+
    show ?thesis
    proof (cases "firstEntry parsedResult")
      case None
      then show ?thesis
        using web unfolding webSearch_parsed p sum.case Let_def by simp
    next
      case (Some entry)
      with n have "\<not> (entry_success entry \<and> entry_results entry \<noteq> [])"
        and "\<not> truthy (entry_error entry)" by blast+
      then show ?thesis
        using web unfolding webSearch_parsed p sum.case Let_def Some option.case by auto
    qed
  qed
  moreover have "ontologyContent =
              ''[INTERNAL DATA - Error]\<newline>''
              @ ''Failed to query Foundry Ontology for: '' @ [CHR 0x22] @ query @ [CHR 0x22]
              @ ''\<newline>Error: '' @ error_message err
              @ ''\<newline>\<newline>This might be due to:''
              @ ''\<newline>- Missing FOUNDRY_ONTOLOGY_RID environment variable''
              @ ''\<newline>- Invalid authentication token''
              @ ''\<newline>- Network connectivity issues''
              @ ''\<newline>- Ontology configuration issues''
              @ ''\<newline>\<newline>Please check your environment configuration.''"
    if "searchOntologyObjects fenv query gateway_options = Inl err" for err
    using ontologySearch_failed [OF that] ont by (simp only: sum.inject)
  moreover have "ontologyContent =
              (if message response = Some ''Ontology search not configured''
               then ''[INTERNAL DATA - Not Configured]\<newline>''
                    @ ''Ontology search is not configured. Set FOUNDRY_ONTOLOGY_RID ''
                    @ ''environment variable to enable internal data search.''
               else
                 (let jsonString = stringify2 (JObj
                        [(''query'', JStr query),
                         (''totalCount'', JNum (responseCount response)),
                         (''searchedTypes'',
                            JArr (map JStr (case searchedTypes response of
                                              None \<Rightarrow> [] | Some ts \<Rightarrow> ts))),
                         (''results'',
                            JArr (map (\<lambda>obj. JObj [(''rid'', JStr (rid obj)),
                                                     (''properties'', JObj (properties obj))])
                                    (responseData response))),
                         (''hasMore'', JBool (truthy (nextPageToken response)))])
                  in ''[INTERNAL DATA - Foundry Ontology]\<newline>'' @ take 15000 jsonString
                     @ (if length jsonString > 15000 then ''\<newline>...(truncated)'' else [])))"
    if "searchOntologyObjects fenv query gateway_options = Inr response" for response
  proof (cases "message response = Some ''Ontology search not configured''")
    case True
    from ontologySearch_not_configured [OF that True] ont True show ?thesis
      by (simp only: sum.inject simp_thms if_True)
  next
    case False
    from ontologySearch_formatted [OF that False] ont False show ?thesis
      by (simp only: Let_def sum.inject simp_thms if_False)
  qed
  ultimately show ?thesis by blast
qed

theorem search_returns_one_result_witness:
  \<open>webCall answering_web_env ''Ada'' = Inr (JObj [(''value'', JStr ''(the JSON text)'')])
   \<and> webCall failing_web_env ''Ada'' = Inl (Error ''HTTP 503: unavailable'')
   \<and> searchOntologyObjects failing_foundry ''Ada'' gateway_options
     = Inl (Error ''Foundry API error (503): unavailable'')
   \<and> map_sum id message (searchOntologyObjects unconfigured_foundry ''Ada'' gateway_options)
     = Inr (Some ''Ontology search not configured'')
   \<and> map_sum id (map rid \<circ> responseData) (searchOntologyObjects sample_foundry ''Ada'' gateway_options)
     = Inr [''ri.object./api/v1/ontologies/ri.x/objects/Employee/search'',
            ''ri.object./api/v1/ontologies/ri.x/objects/News/search'',
            ''ri.object./api/v1/ontologies/ri.x/objects/KeyPeople/search'']
   \<and> (\<exists>st tr. search results_parse answering_web_env sample_foundry ''Ada'' web sample_state [] =
       Inr ([\<lparr>sr_title = ''Web Results'', sr_url = ''Firecrawl'',
          sr_content =
            ''{"success":true,"results":[{"title":"Ada Lovelace"}]}''\<rparr>], st, tr))
   \<and> (\<exists>st tr. search results_parse answering_web_env sample_foundry ''Ada'' ontology sample_state [] =
       Inr ([\<lparr>sr_title = ''Ontology Results'', sr_url = ''Foundry'',
          sr_content =
            ''[INTERNAL DATA - Foundry Ontology]\<newline>{\<newline>  "query": "Ada",\<newline>  "totalCount": 12,\<newline>''
            @ ''  "searchedTypes": [\<newline>    "Employee",\<newline>    "Project",\<newline>    "Upload",\<newline>    "News",\<newline>''
            @ ''    "KeyPeople"\<newline>  ],\<newline>  "results": [\<newline>    {\<newline>      "rid": "ri.object./api/v1/ontologies/ri.x/''
            @ ''objects/Employee/search",\<newline>      "properties": {\<newline>        "name": "Ada"\<newline>''
            @ ''      }\<newline>    },\<newline>    {\<newline>      "rid": "ri.object./api/v1/ontologies/ri.x/objects/News/search",''
            @ ''\<newline>      "properties": {\<newline>        "name": "Ada"\<newline>      }\<newline>    },\<newline>    {\<newline>      "rid": "ri.object.''
            @ ''/api/v1/ontologies/ri.x/objects/KeyPeople/search",\<newline>      "properties": {\<newline>''
            @ ''        "name": "Ada"\<newline>      }\<newline>    }\<newline>  ],\<newline>  "hasMore": false\<newline>}''\<rparr>], st, tr))
   \<and> (\<exists>st tr. search entry_error_parse answering_web_env failing_foundry ''Ada'' web sample_state [] =
       Inr ([\<lparr>sr_title = ''Web Results'', sr_url = ''Firecrawl'',
          sr_content =
            ''{"error":"rate limited","query":"Ada"}''\<rparr>], st, tr))
   \<and> (\<exists>st tr. search entry_error_parse answering_web_env failing_foundry ''Ada'' ontology sample_state [] =
       Inr ([\<lparr>sr_title = ''Ontology Results'', sr_url = ''Foundry'',
          sr_content =
            ''[INTERNAL DATA - Error]\<newline>Failed to query Foundry Ontology for: "Ada"\<newline>Error: Foundry API err''
            @ ''or (503): unavailable\<newline>\<newline>This might be due to:\<newline>- Missing FOUNDRY_ONTOLOGY_RID environment va''
            @ ''riable\<newline>- Invalid authentication token\<newline>- Network connectivity issues\<newline>- Ontology configurati''
            @ ''on issues\<newline>\<newline>Please check your environment configuration.''\<rparr>], st, tr))
   \<and> (\<exists>st tr. search batch_error_parse answering_web_env unconfigured_foundry ''Ada'' web sample_state [] =
       Inr ([\<lparr>sr_title = ''Web Results'', sr_url = ''Firecrawl'',
          sr_content =
            ''{"error":"bad request","details":"no queries","query":"Ada"}''\<rparr>], st, tr))
   \<and> (\<exists>st tr. search batch_error_parse answering_web_env unconfigured_foundry ''Ada'' ontology sample_state [] =
       Inr ([\<lparr>sr_title = ''Ontology Results'', sr_url = ''Foundry'',
          sr_content =
            ''[INTERNAL DATA - Not Configured]\<newline>Ontology search is not configured. Set FOUNDRY_ONTOLOGY_R''
            @ ''ID environment variable to enable internal data search.''\<rparr>], st, tr))
   \<and> (\<exists>st tr. search other_parse answering_web_env unconfigured_foundry ''Ada'' web sample_state [] =
       Inr ([\<lparr>sr_title = ''Web Results'', sr_url = ''Firecrawl'',
          sr_content =
            ''{"status":"ok"}''\<rparr>], st, tr))
   \<and> (\<exists>st tr. search sample_parse answering_web_env unconfigured_foundry ''Ada'' web sample_state [] =
       Inr ([\<lparr>sr_title = ''Web Results'', sr_url = ''Firecrawl'',
          sr_content =
            ''{"error":"Foundry function call failed","message":"Unexpected end of JSON input","query":"''
            @ ''Ada"}''\<rparr>], st, tr))
   \<and> (\<exists>st tr. search sample_parse failing_web_env unconfigured_foundry ''Ada'' web sample_state [] =
       Inr ([\<lparr>sr_title = ''Web Results'', sr_url = ''Firecrawl'',
          sr_content =
            ''{"error":"Foundry function call failed","message":"HTTP 503: unavailable","query":"Ada"}''\<rparr>], st, tr))\<close>
proof -
  note web_defs = callFoundryFunction_def answering_web_env_def failing_web_env_def
    results_parse_def entry_error_parse_def batch_error_parse_def other_parse_def
    sample_parse_def truthy_def or_else_def str_of_def stringify_def json_quote_def
    json_escape_char_def
  note listing_defs = stringify2_def json_quote_def json_escape_char_def number_to_string_def
    decimal_digits.simps hex_digit_def truthy_def sample_object_def Let_def
  have answered: "webCall answering_web_env ''Ada'' = Inr (JObj [(''value'', JStr ''(the JSON text)'')])"
    by (simp add: callFoundryFunction_def answering_web_env_def truthy_def or_else_def str_of_def
          stringify_def json_quote_def json_escape_char_def)
  have unanswered: "webCall failing_web_env ''Ada'' = Inl (Error ''HTTP 503: unavailable'')"
    by (simp add: callFoundryFunction_def failing_web_env_def truthy_def or_else_def str_of_def)
  have thrown: "searchOntologyObjects failing_foundry ''Ada'' gateway_options
       = Inl (Error ''Foundry API error (503): unavailable'')"
    by (simp add: searchOntologyObjects_def gateway_options_def failing_foundry_def
          getOntologyRid_def or_else_def truthy_def listObjectTypes_def try_catch_def)
  have unconfigured: "searchOntologyObjects unconfigured_foundry ''Ada'' gateway_options
       = Inr \<lparr>data = Some [], totalCount = Some 0, nextPageToken = None,
               searchedTypes = None, message = Some ''Ontology search not configured''\<rparr>"
    by (simp add: searchOntologyObjects_def gateway_options_def unconfigured_foundry_def
          getOntologyRid_def or_else_def truthy_def)
  have found: "searchOntologyObjects sample_foundry ''Ada'' gateway_options
       = Inr \<lparr>data = Some [sample_object ''/api/v1/ontologies/ri.x/objects/Employee/search'',
                            sample_object ''/api/v1/ontologies/ri.x/objects/News/search'',
                            sample_object ''/api/v1/ontologies/ri.x/objects/KeyPeople/search''],
               totalCount = Some 12, nextPageToken = None,
               searchedTypes = Some [''Employee'', ''Project'', ''Upload'', ''News'', ''KeyPeople''],
               message = None\<rparr>"
    by (rule sample_foundry_response)
  have results: \<open>(\<exists>st tr. search results_parse answering_web_env sample_foundry ''Ada'' web sample_state [] =
         Inr ([\<lparr>sr_title = ''Web Results'', sr_url = ''Firecrawl'',
            sr_content =
              ''{"success":true,"results":[{"title":"Ada Lovelace"}]}''\<rparr>], st, tr))
     \<and> (\<exists>st tr. search results_parse answering_web_env sample_foundry ''Ada'' ontology sample_state [] =
         Inr ([\<lparr>sr_title = ''Ontology Results'', sr_url = ''Foundry'',
            sr_content =
              ''[INTERNAL DATA - Foundry Ontology]\<newline>{\<newline>  "query": "Ada",\<newline>  "totalCount": 12,\<newline>''
              @ ''  "searchedTypes": [\<newline>    "Employee",\<newline>    "Project",\<newline>    "Upload",\<newline>    "News",\<newline>''
              @ ''    "KeyPeople"\<newline>  ],\<newline>  "results": [\<newline>    {\<newline>      "rid": "ri.object./api/v1/ontologies/ri.x/''
              @ ''objects/Employee/search",\<newline>      "properties": {\<newline>        "name": "Ada"\<newline>''
              @ ''      }\<newline>    },\<newline>    {\<newline>      "rid": "ri.object./api/v1/ontologies/ri.x/objects/News/search",''
              @ ''\<newline>      "properties": {\<newline>        "name": "Ada"\<newline>      }\<newline>    },\<newline>    {\<newline>      "rid": "ri.object.''
              @ ''/api/v1/ontologies/ri.x/objects/KeyPeople/search",\<newline>      "properties": {\<newline>''
              @ ''        "name": "Ada"\<newline>      }\<newline>    }\<newline>  ],\<newline>  "hasMore": false\<newline>}''\<rparr>], st, tr))\<close>
    using search_returns_one_result [where parse = results_parse and wenv = answering_web_env
        and fenv = sample_foundry and query = "''Ada''" and researchState = sample_state
        and activityTracker = "[]"]
    by (elim exE conjE) (simp add: web_defs listing_defs found)
  have entry_error: \<open>(\<exists>st tr. search entry_error_parse answering_web_env failing_foundry ''Ada'' web sample_state [] =
         Inr ([\<lparr>sr_title = ''Web Results'', sr_url = ''Firecrawl'',
            sr_content =
              ''{"error":"rate limited","query":"Ada"}''\<rparr>], st, tr))
     \<and> (\<exists>st tr. search entry_error_parse answering_web_env failing_foundry ''Ada'' ontology sample_state [] =
         Inr ([\<lparr>sr_title = ''Ontology Results'', sr_url = ''Foundry'',
            sr_content =
              ''[INTERNAL DATA - Error]\<newline>Failed to query Foundry Ontology for: "Ada"\<newline>Error: Foundry API err''
              @ ''or (503): unavailable\<newline>\<newline>This might be due to:\<newline>- Missing FOUNDRY_ONTOLOGY_RID environment va''
              @ ''riable\<newline>- Invalid authentication token\<newline>- Network connectivity issues\<newline>- Ontology configurati''
              @ ''on issues\<newline>\<newline>Please check your environment configuration.''\<rparr>], st, tr))\<close>
    using search_returns_one_result [where parse = entry_error_parse and wenv = answering_web_env
        and fenv = failing_foundry and query = "''Ada''" and researchState = sample_state
        and activityTracker = "[]"]
    by (elim exE conjE) (simp add: web_defs listing_defs thrown)
  have batch_error: \<open>(\<exists>st tr. search batch_error_parse answering_web_env unconfigured_foundry ''Ada'' web sample_state [] =
         Inr ([\<lparr>sr_title = ''Web Results'', sr_url = ''Firecrawl'',
            sr_content =
              ''{"error":"bad request","details":"no queries","query":"Ada"}''\<rparr>], st, tr))
     \<and> (\<exists>st tr. search batch_error_parse answering_web_env unconfigured_foundry ''Ada'' ontology sample_state [] =
         Inr ([\<lparr>sr_title = ''Ontology Results'', sr_url = ''Foundry'',
            sr_content =
              ''[INTERNAL DATA - Not Configured]\<newline>Ontology search is not configured. Set FOUNDRY_ONTOLOGY_R''
              @ ''ID environment variable to enable internal data search.''\<rparr>], st, tr))\<close>
    using search_returns_one_result [where parse = batch_error_parse and wenv = answering_web_env
        and fenv = unconfigured_foundry and query = "''Ada''" and researchState = sample_state
        and activityTracker = "[]"]
    by (elim exE conjE) (simp add: web_defs listing_defs unconfigured)
  have other: \<open>(\<exists>st tr. search other_parse answering_web_env unconfigured_foundry ''Ada'' web sample_state [] =
         Inr ([\<lparr>sr_title = ''Web Results'', sr_url = ''Firecrawl'',
            sr_content =
              ''{"status":"ok"}''\<rparr>], st, tr))\<close>
    using search_returns_one_result [where parse = other_parse and wenv = answering_web_env
        and fenv = unconfigured_foundry and query = "''Ada''" and researchState = sample_state
        and activityTracker = "[]"]
    by (elim exE conjE) (simp add: web_defs listing_defs unconfigured)
  have unparsed: \<open>(\<exists>st tr. search sample_parse answering_web_env unconfigured_foundry ''Ada'' web sample_state [] =
         Inr ([\<lparr>sr_title = ''Web Results'', sr_url = ''Firecrawl'',
            sr_content =
              ''{"error":"Foundry function call failed","message":"Unexpected end of JSON input","query":"''
              @ ''Ada"}''\<rparr>], st, tr))\<close>
    using search_returns_one_result [where parse = sample_parse and wenv = answering_web_env
        and fenv = unconfigured_foundry and query = "''Ada''" and researchState = sample_state
        and activityTracker = "[]"]
    by (elim exE conjE) (simp add: web_defs listing_defs unconfigured)
  have rejected_call: \<open>(\<exists>st tr. search sample_parse failing_web_env unconfigured_foundry ''Ada'' web sample_state [] =
         Inr ([\<lparr>sr_title = ''Web Results'', sr_url = ''Firecrawl'',
            sr_content =
              ''{"error":"Foundry function call failed","message":"HTTP 503: unavailable","query":"Ada"}''\<rparr>], st, tr))\<close>
    using search_returns_one_result [where parse = sample_parse and wenv = failing_web_env
        and fenv = unconfigured_foundry and query = "''Ada''" and researchState = sample_state
        and activityTracker = "[]"]
    by (elim exE conjE) (simp add: web_defs listing_defs unconfigured)
  have placeholder: "map_sum id message
      (searchOntologyObjects unconfigured_foundry ''Ada'' gateway_options)
     = Inr (Some ''Ontology search not configured'')"
    unfolding unconfigured by simp
  have rids: "map_sum id (map rid \<circ> responseData)
      (searchOntologyObjects sample_foundry ''Ada'' gateway_options)
     = Inr [''ri.object./api/v1/ontologies/ri.x/objects/Employee/search'',
            ''ri.object./api/v1/ontologies/ri.x/objects/News/search'',
            ''ri.object./api/v1/ontologies/ri.x/objects/KeyPeople/search'']"
    unfolding found by (simp add: sample_object_def)
  show ?thesis
    using answered unanswered thrown placeholder rids
      results entry_error batch_error other unparsed rejected_call
    by (elim conjE) (intro conjI, assumption+)
qed

text \<open>
  C6. If the model call of the judge is rejected, \<open>analyzeFindings\<close> does not throw: it
  returns \<open>sufficient = false\<close>, the one gap and exactly one follow-up query, whose source
  is web, and makes no further model call.
\<close>

theorem judge_failure_falls_back:
  assumes "combineFindings (findings researchState) = Inr contentText"
    and "callModel
           \<lparr>call_prompt = getAnalysisPrompt contentText (topic researchState)
                            (clerificationsText researchState) currentQueries
                            currentIteration MAX_ITERATIONS (length contentText),
            call_system = ANALYSIS_SYSTEM_PROMPT,
            call_activityType = ''analyze''\<rparr> w = (Inl err, w')"
  shows "\<exists>activityTracker'.
           analyzeFindings MAX_ITERATIONS combineFindings callModel researchState currentQueries
             currentIteration activityTracker w =
             Inr (\<lparr>sufficient = False, gaps = [''Unable to analyze content''],
                   queries = [\<lparr>sq_query = ''Please try a different search query'',
                               sq_source = web\<rparr>]\<rparr>,
                  activityTracker', w')"
  unfolding analyzeFindings_def Let_def assms sum.case prod.case
  by (simp add: handleError_def)

theorem judge_failure_falls_back_witness:
  "picky_model
     \<lparr>call_prompt = getAnalysisPrompt [] (topic sample_state) (clerificationsText sample_state)
                      [''TypeScript best practices''] 1 3 (length ([] :: string)),
      call_system = ANALYSIS_SYSTEM_PROMPT,
      call_activityType = ''analyze''\<rparr> 0 = (Inl (Error ''model unavailable''), 1)
   \<and> fst (picky_model
            \<lparr>call_prompt = [], call_system = PLANNING_SYSTEM_PROMPT,
             call_activityType = ''planning''\<rparr> 0)
       = Inr \<lparr>sufficient = True, gaps = [], queries = []\<rparr>
   \<and> (\<exists>activityTracker'.
         analyzeFindings 3 (\<lambda>fs. Inr (concat (map f_summary fs))) picky_model
           sample_state [''TypeScript best practices''] 1 [] 0 =
           Inr (\<lparr>sufficient = False, gaps = [''Unable to analyze content''],
                 queries = [\<lparr>sq_query = ''Please try a different search query'',
                             sq_source = web\<rparr>]\<rparr>,
                activityTracker', 1))"
proof -
  have combined: "(\<lambda>fs. Inr (concat (map f_summary fs))) (findings sample_state)
      = (Inr [] :: js_error + string)"
    by (simp add: sample_state_def)
  have rejected: "picky_model
     \<lparr>call_prompt = getAnalysisPrompt [] (topic sample_state) (clerificationsText sample_state)
                      [''TypeScript best practices''] 1 3 (length ([] :: string)),
      call_system = ANALYSIS_SYSTEM_PROMPT,
      call_activityType = ''analyze''\<rparr> 0 = (Inl (Error ''model unavailable''), 1)"
    by (simp add: picky_model_def)
  have answered: "fst (picky_model
            \<lparr>call_prompt = [], call_system = PLANNING_SYSTEM_PROMPT,
             call_activityType = ''planning''\<rparr> 0)
       = Inr \<lparr>sufficient = True, gaps = [], queries = []\<rparr>"
    by (simp add: picky_model_def)
  have "\<exists>activityTracker'.
         analyzeFindings 3 (\<lambda>fs. Inr (concat (map f_summary fs))) picky_model
           sample_state [''TypeScript best practices''] 1 [] 0 =
           Inr (\<lparr>sufficient = False, gaps = [''Unable to analyze content''],
                 queries = [\<lparr>sq_query = ''Please try a different search query'',
                             sq_source = web\<rparr>]\<rparr>,
                activityTracker', 1)"
    using combined rejected
    by (rule judge_failure_falls_back [where combineFindings = "\<lambda>fs. Inr (concat (map f_summary fs))"
          and researchState = sample_state and contentText = "[]" and callModel = picky_model
          and currentQueries = "[''TypeScript best practices'']" and currentIteration = 1
          and MAX_ITERATIONS = 3 and w = 0 and w' = 1 and err = "Error ''model unavailable''"
          and activityTracker = "[]"])
  with rejected answered show ?thesis by blast
qed

lemma extractContent_answer:
  "fst (extractContent callModel (sr_content result) (sr_url result) researchState activityTracker w)
     = Inr (case fst (callModel (extractionCall researchState result) w) of
              Inl err \<Rightarrow> None
            | Inr r \<Rightarrow> Some \<lparr>e_url = sr_url result, e_summary = x_summary r\<rparr>)
   \<and> snd (snd (extractContent callModel (sr_content result) (sr_url result) researchState
                  activityTracker w))
     = snd (callModel (extractionCall researchState result) w)"
  by (cases "callModel (extractionCall researchState result) w";
      cases "fst (callModel (extractionCall researchState result) w)")
     (simp_all add: extractContent_def Let_def handleError_def)

lemma extractAll_answers:
  "fst (extractAll callModel searchResults researchState activityTracker w)
     = map (\<lambda>(result, answer).
               fulfilled (case answer of
                            Inl err \<Rightarrow> None
                          | Inr r \<Rightarrow> Some \<lparr>e_url = sr_url result, e_summary = x_summary r\<rparr>))
         (zip searchResults (modelAnswers callModel researchState searchResults w))"
proof (induction searchResults arbitrary: activityTracker w)
  case Nil
  show ?case by simp
next
  case (Cons result rest)
  obtain promise tracker1 w1 where first:
    "extractContent callModel (sr_content result) (sr_url result) researchState activityTracker w
       = (promise, tracker1, w1)"
    by (cases "extractContent callModel (sr_content result) (sr_url result) researchState
                 activityTracker w") auto
  from extractContent_answer [of callModel result researchState activityTracker w]
  have promise: "promise = Inr (case fst (callModel (extractionCall researchState result) w) of
              Inl err \<Rightarrow> None
            | Inr r \<Rightarrow> Some \<lparr>e_url = sr_url result, e_summary = x_summary r\<rparr>)"
    and w1: "w1 = snd (callModel (extractionCall researchState result) w)"
    unfolding first by simp_all
  obtain others tracker2 w2 where others:
    "extractAll callModel rest researchState tracker1
       (snd (callModel (extractionCall researchState result) w)) = (others, tracker2, w2)"
    by (cases "extractAll callModel rest researchState tracker1
                 (snd (callModel (extractionCall researchState result) w))") auto
  from Cons.IH [of tracker1 "snd (callModel (extractionCall researchState result) w)"]
  have "others = map (\<lambda>(result, answer).
               fulfilled (case answer of
                            Inl err \<Rightarrow> None
                          | Inr r \<Rightarrow> Some \<lparr>e_url = sr_url result, e_summary = x_summary r\<rparr>))
         (zip rest (modelAnswers callModel researchState rest
                      (snd (callModel (extractionCall researchState result) w))))"
    unfolding others by simp
  then show ?case
    unfolding extractAll.simps first w1 Let_def prod.case others promise
    by simp
qed

lemma newFindings_of_outcomes:
  "fst (processSearchResults callModel searchResults researchState activityTracker w)
     = concat (map (\<lambda>result. case result of
                                fulfilled (Some v) \<Rightarrow> [\<lparr>f_summary = e_summary v, f_source = e_url v\<rparr>]
                              | _ \<Rightarrow> [])
                 (fst (extractAll callModel searchResults researchState activityTracker w)))"
  by (cases "extractAll callModel searchResults researchState activityTracker w")
     (simp add: processSearchResults_def)

lemma newFindings_of_answers:
  "fst (processSearchResults callModel searchResults researchState activityTracker w)
     = concat (map (\<lambda>(result, answer).
                      case answer of
                        Inl err \<Rightarrow> []
                      | Inr r \<Rightarrow> [\<lparr>f_summary = x_summary r, f_source = sr_url result\<rparr>])
                 (zip searchResults (modelAnswers callModel researchState searchResults w)))"
proof -
  have "(case (case answer of
                 Inl err \<Rightarrow> None
               | Inr r \<Rightarrow> Some \<lparr>e_url = sr_url result, e_summary = x_summary r\<rparr>) of
           None \<Rightarrow> []
         | Some v \<Rightarrow> [\<lparr>f_summary = e_summary v, f_source = e_url v\<rparr>])
        = (case answer of
             Inl err \<Rightarrow> []
           | Inr r \<Rightarrow> [\<lparr>f_summary = x_summary r, f_source = sr_url result\<rparr>])"
    for answer :: "js_error + extraction_result" and result :: SearchResult
    by (cases answer) simp_all
  then show ?thesis
    unfolding newFindings_of_outcomes extractAll_answers
    by (simp add: comp_def case_prod_unfold)
qed

lemma length_modelAnswers:
  "length (modelAnswers callModel researchState searchResults w) = length searchResults"
  by (induction searchResults arbitrary: w) simp_all

text \<open>
  C7. The findings that \<open>processSearchResults\<close> returns are exactly those of the extractions
  of the batch whose model call answered, in the order of the search results: the summary
  of the answer with the URL of the search result. An extraction whose model call is
  rejected fulfils with \<open>null\<close> (no extraction rejects) and gives no finding; when every
  model call of the batch is rejected, the list of new findings is empty, so that
  appending it leaves the findings as they were.
\<close>

theorem processSearchResults_keeps_successful_extractions:
  "fst (processSearchResults callModel searchResults researchState activityTracker w)
     = concat (map (\<lambda>(result, answer).
                      case answer of
                        Inl err \<Rightarrow> []
                      | Inr r \<Rightarrow> [\<lparr>f_summary = x_summary r, f_source = sr_url result\<rparr>])
                 (zip searchResults (modelAnswers callModel researchState searchResults w)))
   \<and> fst (extractAll callModel searchResults researchState activityTracker w)
     = map (\<lambda>(result, answer).
               fulfilled (case answer of
                            Inl err \<Rightarrow> None
                          | Inr r \<Rightarrow> Some \<lparr>e_url = sr_url result, e_summary = x_summary r\<rparr>))
         (zip searchResults (modelAnswers callModel researchState searchResults w))
   \<and> length (modelAnswers callModel researchState searchResults w) = length searchResults
   \<and> ((\<forall>answer \<in> set (modelAnswers callModel researchState searchResults w). isl answer) \<longrightarrow>
        fst (processSearchResults callModel searchResults researchState activityTracker w) = []
        \<and> findings researchState
           @ fst (processSearchResults callModel searchResults researchState activityTracker w)
           = findings researchState)"
proof (intro conjI impI)
  show "fst (processSearchResults callModel searchResults researchState activityTracker w)
     = concat (map (\<lambda>(result, answer).
                      case answer of
                        Inl err \<Rightarrow> []
                      | Inr r \<Rightarrow> [\<lparr>f_summary = x_summary r, f_source = sr_url result\<rparr>])
                 (zip searchResults (modelAnswers callModel researchState searchResults w)))"
    by (rule newFindings_of_answers)
  show "fst (extractAll callModel searchResults researchState activityTracker w)
     = map (\<lambda>(result, answer).
               fulfilled (case answer of
                            Inl err \<Rightarrow> None
                          | Inr r \<Rightarrow> Some \<lparr>e_url = sr_url result, e_summary = x_summary r\<rparr>))
         (zip searchResults (modelAnswers callModel researchState searchResults w))"
    by (rule extractAll_answers)
  show "length (modelAnswers callModel researchState searchResults w) = length searchResults"
    by (rule length_modelAnswers)
next
  assume all_rejected:
    "\<forall>answer \<in> set (modelAnswers callModel researchState searchResults w). isl answer"
  have "(case answer of Inl err \<Rightarrow> []
         | Inr r \<Rightarrow> [\<lparr>f_summary = x_summary r, f_source = sr_url result\<rparr>]) = []"
    if "(result, answer) \<in> set (zip searchResults
          (modelAnswers callModel researchState searchResults w))" for result answer
  proof -
    from that have "answer \<in> set (modelAnswers callModel researchState searchResults w)"
      by (rule set_zip_rightD)
    with all_rejected have "isl answer" by blast
    then show ?thesis by (cases answer) simp_all
  qed
  then have empty:
    "fst (processSearchResults callModel searchResults researchState activityTracker w) = []"
    unfolding newFindings_of_answers by auto
  then show "fst (processSearchResults callModel searchResults researchState activityTracker w) = []"
    and "findings researchState
           @ fst (processSearchResults callModel searchResults researchState activityTracker w)
           = findings researchState"
    by simp_all
qed

theorem processSearchResults_keeps_successful_extractions_witness:
  "modelAnswers flaky_model sample_state sample_results 0
     = [Inl (Error ''model unavailable''), Inr \<lparr>x_summary = ''a summary''\<rparr>]
   \<and> fst (processSearchResults flaky_model sample_results sample_state [] 0)
       = [\<lparr>f_summary = ''a summary'', f_source = ''Foundry''\<rparr>]
   \<and> fst (extractAll flaky_model sample_results sample_state [] 0)
       = [fulfilled None, fulfilled (Some \<lparr>e_url = ''Foundry'', e_summary = ''a summary''\<rparr>)]
   \<and> modelAnswers late_model sample_state sample_results 0
       = [Inl (Error ''model unavailable''), Inl (Error ''model unavailable'')]
   \<and> list_all isl (modelAnswers late_model sample_state sample_results 0)
   \<and> fst (late_model (extractionCall sample_state (hd sample_results)) 2)
       = Inr \<lparr>x_summary = ''a summary''\<rparr>
   \<and> fst (processSearchResults late_model sample_results sample_state [] 0) = []"
proof -
  have flaky: "modelAnswers flaky_model sample_state sample_results 0
     = [Inl (Error ''model unavailable''), Inr \<lparr>x_summary = ''a summary''\<rparr>]"
    by (simp add: sample_results_def flaky_model_def)
  have late: "modelAnswers late_model sample_state sample_results 0
       = [Inl (Error ''model unavailable''), Inl (Error ''model unavailable'')]"
    by (simp add: sample_results_def late_model_def)
  have later: "fst (late_model (extractionCall sample_state (hd sample_results)) 2)
       = Inr \<lparr>x_summary = ''a summary''\<rparr>"
    by (simp add: late_model_def)
  have all_rejected:
    "\<forall>answer \<in> set (modelAnswers late_model sample_state sample_results 0). isl answer"
    unfolding late by simp
  note kept = processSearchResults_keeps_successful_extractions
    [where callModel = flaky_model and searchResults = sample_results
       and researchState = sample_state and activityTracker = "[]" and w = 0]
  note dropped = processSearchResults_keeps_successful_extractions
    [where callModel = late_model and searchResults = sample_results
       and researchState = sample_state and activityTracker = "[]" and w = 0]
  from kept have "fst (processSearchResults flaky_model sample_results sample_state [] 0)
       = [\<lparr>f_summary = ''a summary'', f_source = ''Foundry''\<rparr>]"
    unfolding flaky by (simp add: sample_results_def)
  moreover from kept have "fst (extractAll flaky_model sample_results sample_state [] 0)
       = [fulfilled None, fulfilled (Some \<lparr>e_url = ''Foundry'', e_summary = ''a summary''\<rparr>)]"
    unfolding flaky by (simp add: sample_results_def)
  moreover from dropped all_rejected
  have "fst (processSearchResults late_model sample_results sample_state [] 0) = []"
    by blast
  moreover have "list_all isl (modelAnswers late_model sample_state sample_results 0)"
    unfolding late by simp
  ultimately show ?thesis
    using flaky late later by blast
qed

end
